theory Spec2Isabelle
  imports Main "HOL-Library.Word"
begin

unbundle bit_operations_syntax

section \<open>Python values used by chip8.py\<close>

text \<open>
  The emulator is written in Python 3: every number is an unbounded integer (\<open>int\<close>),
  \<open>%\<close> and \<open>>>\<close> round towards minus infinity like \<open>mod\<close> and \<open>drop_bit\<close>,
  and \<open>&\<close>, \<open>|\<close>, \<open>^\<close> act on the two's complement representation like
  \<open>AND\<close>, \<open>OR\<close>, \<open>XOR\<close> on \<open>int\<close>. Lists are indexed with Python's rules:
  a negative index counts from the end, an index out of range raises \<open>IndexError\<close>,
  and slices are clipped to the list.
\<close>

datatype py_error = IndexError | AttributeError

definition ebind :: "py_error + 'a \<Rightarrow> ('a \<Rightarrow> py_error + 'b) \<Rightarrow> py_error + 'b" where
  "ebind m f = (case m of Inl e \<Rightarrow> Inl e | Inr v \<Rightarrow> f v)"

definition py_index :: "nat \<Rightarrow> int \<Rightarrow> nat option" where
  "py_index len i =
     (if 0 \<le> i \<and> i < int len then Some (nat i)
      else if i < 0 \<and> - int len \<le> i then Some (nat (int len + i))
      else None)"

definition py_get :: "'a list \<Rightarrow> int \<Rightarrow> py_error + 'a" where
  "py_get xs i = (case py_index (length xs) i of None \<Rightarrow> Inl IndexError | Some k \<Rightarrow> Inr (xs ! k))"

definition py_set :: "'a list \<Rightarrow> int \<Rightarrow> 'a \<Rightarrow> py_error + 'a list" where
  "py_set xs i v = (case py_index (length xs) i of None \<Rightarrow> Inl IndexError | Some k \<Rightarrow> Inr (xs[k := v]))"

definition py_clip :: "nat \<Rightarrow> int \<Rightarrow> nat" where
  "py_clip len i = (if i < 0 then nat (max 0 (int len + i)) else min (nat i) len)"

definition py_slice :: "'a list \<Rightarrow> int \<Rightarrow> int \<Rightarrow> 'a list" where
  "py_slice xs a b =
     (let lo = py_clip (length xs) a; hi = py_clip (length xs) b
      in take (hi - lo) (drop lo xs))"

definition py_slice_assign :: "'a list \<Rightarrow> int \<Rightarrow> int \<Rightarrow> 'a list \<Rightarrow> 'a list" where
  "py_slice_assign xs a b ys =
     (let lo = py_clip (length xs) a; hi = max lo (py_clip (length xs) b)
      in take lo xs @ ys @ drop hi xs)"

definition py_pop :: "'a list \<Rightarrow> py_error + ('a \<times> 'a list)" where
  "py_pop xs = (if xs = [] then Inl IndexError else Inr (last xs, butlast xs))"

section \<open>The CPU state\<close>

text \<open>
  One record holds the attributes that \<open>Chip8CPU.reset_cpu\<close> creates. The handler
  objects of \<open>opcode_table\<close> are ordinary Python objects too: \<open>OPFX15.execute\<close>
  and \<open>OPFX18.execute\<close> assign to \<open>self.delay_timer\<close> and \<open>self.sound_timer\<close>,
  where \<open>self\<close> is the handler, so the state carries those two handler attributes
  (\<open>None\<close> while the attribute does not exist). The curses window is not part of the model.
\<close>

record chip8_cpu =
  memory :: "int list"
  program_counter :: int
  stack :: "int list"
  v_registers :: "int list"
  i_register :: int
  delay_timer :: int
  sound_timer :: int
  inputs :: "int list"
  screen :: "int list list"
  opfx15_delay_timer :: "int option"
  opfx18_sound_timer :: "int option"

definition START_ADDRESS :: int where "START_ADDRESS = 0x200"
definition SCREEN_WIDTH :: int where "SCREEN_WIDTH = 64"
definition SCREEN_HEIGHT :: int where "SCREEN_HEIGHT = 32"

definition font_sprites :: "int list" where
  "font_sprites =
     [0xf0, 0x90, 0x90, 0x90, 0xf0,
      0x20, 0x60, 0x20, 0x20, 0x70,
      0xf0, 0x10, 0xf0, 0x80, 0xf0,
      0xf0, 0x10, 0xf0, 0x10, 0xf0,
      0x90, 0x90, 0xf0, 0x10, 0x10,
      0xf0, 0x80, 0xf0, 0x10, 0xf0,
      0xf0, 0x80, 0xf0, 0x90, 0xf0,
      0xf0, 0x10, 0x20, 0x40, 0x40,
      0xf0, 0x90, 0xf0, 0x90, 0xf0,
      0xf0, 0x90, 0xf0, 0x10, 0xf0,
      0xf0, 0x90, 0xf0, 0x90, 0x90,
      0xe0, 0x90, 0xe0, 0x90, 0xe0,
      0xf0, 0x80, 0x80, 0x80, 0xf0,
      0xe0, 0x90, 0x90, 0x90, 0xe0,
      0xf0, 0x80, 0xf0, 0x80, 0xf0,
      0xf0, 0x80, 0xf0, 0x80, 0x80]"

definition blank_screen :: "int list list" where
  "blank_screen = replicate (nat SCREEN_HEIGHT) (replicate (nat SCREEN_WIDTH) 0)"

definition reset_screen :: "chip8_cpu \<Rightarrow> chip8_cpu" where
  "reset_screen s = s\<lparr>screen := blank_screen\<rparr>"

definition init_character_sprites :: "chip8_cpu \<Rightarrow> chip8_cpu" where
  "init_character_sprites s = s\<lparr>memory := py_slice_assign (memory s) 0 80 font_sprites\<rparr>"

text \<open>\<open>Chip8CPU.__init__\<close>: \<open>reset_cpu\<close>, then the handlers are created without timer attributes.\<close>

definition reset_cpu :: chip8_cpu where
  "reset_cpu =
     init_character_sprites (reset_screen
       \<lparr>memory = replicate 4096 0,
        program_counter = START_ADDRESS,
        stack = [],
        v_registers = replicate 16 0,
        i_register = 0,
        delay_timer = 0,
        sound_timer = 0,
        inputs = replicate 16 0,
        screen = [],
        opfx15_delay_timer = None,
        opfx18_sound_timer = None\<rparr>)"

definition update_timers :: "chip8_cpu \<Rightarrow> chip8_cpu" where
  "update_timers s =
     (let s1 = (if delay_timer s > 0 then s\<lparr>delay_timer := delay_timer s - 1\<rparr> else s)
      in if sound_timer s1 > 0 then s1\<lparr>sound_timer := sound_timer s1 - 1\<rparr> else s1)"

definition set_pixel :: "chip8_cpu \<Rightarrow> int \<Rightarrow> int \<Rightarrow> int \<Rightarrow> py_error + chip8_cpu" where
  "set_pixel s x y v =
     ebind (py_get (screen s) y) (\<lambda>row.
     ebind (py_set row x v) (\<lambda>row'.
     ebind (py_set (screen s) y row') (\<lambda>screen'.
     Inr (s\<lparr>screen := screen'\<rparr>))))"

definition get_pixel :: "chip8_cpu \<Rightarrow> int \<Rightarrow> int \<Rightarrow> py_error + int" where
  "get_pixel s x y = ebind (py_get (screen s) y) (\<lambda>row. py_get row x)"

text \<open>\<open>load_rom\<close>, with the bytes of the ROM file as a list: one byte per address from 0x200.\<close>

fun load_rom_loop :: "int list \<Rightarrow> int \<Rightarrow> chip8_cpu \<Rightarrow> py_error + chip8_cpu" where
  "load_rom_loop [] i s = Inr s"
| "load_rom_loop (byte # rest) i s =
     ebind (py_set (memory s) i byte) (\<lambda>m. load_rom_loop rest (i + 1) (s\<lparr>memory := m\<rparr>))"

definition load_rom :: "int list \<Rightarrow> chip8_cpu \<Rightarrow> py_error + chip8_cpu" where
  "load_rom rom s = load_rom_loop rom START_ADDRESS s"

text \<open>\<open>fetch\<close> reads two bytes and assigns nothing; it returns the opcode and the state it was given.\<close>

definition fetch :: "chip8_cpu \<Rightarrow> py_error + (int \<times> chip8_cpu)" where
  "fetch s =
     ebind (py_get (memory s) (program_counter s)) (\<lambda>hi.
     ebind (py_get (memory s) (program_counter s + 1)) (\<lambda>lo.
     Inr (push_bit 8 hi + lo, s)))"

definition update_pc :: "chip8_cpu \<Rightarrow> chip8_cpu" where
  "update_pc s = s\<lparr>program_counter := program_counter s + 2\<rparr>"

section \<open>Instruction handlers\<close>

text \<open>The bit fields that the handlers cut out of the opcode.\<close>

definition op_x :: "int \<Rightarrow> int" where "op_x opcode = drop_bit 8 (opcode AND 0x0f00)"
definition op_y :: "int \<Rightarrow> int" where "op_y opcode = drop_bit 4 (opcode AND 0x00f0)"
definition op_n :: "int \<Rightarrow> int" where "op_n opcode = opcode AND 0x000f"
definition op_nn :: "int \<Rightarrow> int" where "op_nn opcode = opcode AND 0x00ff"
definition op_nnn :: "int \<Rightarrow> int" where "op_nnn opcode = opcode AND 0x0fff"

text \<open>\<open>self.cpu.v_registers[k]\<close> read and written.\<close>

definition v_get :: "chip8_cpu \<Rightarrow> int \<Rightarrow> py_error + int" where
  "v_get s k = py_get (v_registers s) k"

definition v_set :: "chip8_cpu \<Rightarrow> int \<Rightarrow> int \<Rightarrow> py_error + chip8_cpu" where
  "v_set s k v = ebind (py_set (v_registers s) k v) (\<lambda>r. Inr (s\<lparr>v_registers := r\<rparr>))"

definition mem_set :: "chip8_cpu \<Rightarrow> int \<Rightarrow> int \<Rightarrow> py_error + chip8_cpu" where
  "mem_set s k v = ebind (py_set (memory s) k v) (\<lambda>m. Inr (s\<lparr>memory := m\<rparr>))"

definition OP0NNN_execute :: "chip8_cpu \<Rightarrow> int \<Rightarrow> py_error + chip8_cpu" where
  "OP0NNN_execute s opcode = Inr s"

definition OP00E0_execute :: "chip8_cpu \<Rightarrow> int \<Rightarrow> py_error + chip8_cpu" where
  "OP00E0_execute s opcode = Inr (reset_screen s)"

definition OP00EE_execute :: "chip8_cpu \<Rightarrow> int \<Rightarrow> py_error + chip8_cpu" where
  "OP00EE_execute s opcode =
     ebind (py_pop (stack s)) (\<lambda>(top, rest). Inr (s\<lparr>stack := rest, program_counter := top\<rparr>))"

definition OP1NNN_execute :: "chip8_cpu \<Rightarrow> int \<Rightarrow> py_error + chip8_cpu" where
  "OP1NNN_execute s opcode = Inr (s\<lparr>program_counter := op_nnn opcode - 2\<rparr>)"

definition OP2NNN_execute :: "chip8_cpu \<Rightarrow> int \<Rightarrow> py_error + chip8_cpu" where
  "OP2NNN_execute s opcode =
     Inr (s\<lparr>stack := stack s @ [program_counter s], program_counter := op_nnn opcode - 2\<rparr>)"

definition OP3XNN_execute :: "chip8_cpu \<Rightarrow> int \<Rightarrow> py_error + chip8_cpu" where
  "OP3XNN_execute s opcode =
     ebind (v_get s (op_x opcode)) (\<lambda>vx.
     if vx = op_nn opcode then Inr (s\<lparr>program_counter := program_counter s + 2\<rparr>) else Inr s)"

definition OP4XNN_execute :: "chip8_cpu \<Rightarrow> int \<Rightarrow> py_error + chip8_cpu" where
  "OP4XNN_execute s opcode =
     ebind (v_get s (op_x opcode)) (\<lambda>vx.
     if vx \<noteq> op_nn opcode then Inr (s\<lparr>program_counter := program_counter s + 2\<rparr>) else Inr s)"

definition OP5XY0_execute :: "chip8_cpu \<Rightarrow> int \<Rightarrow> py_error + chip8_cpu" where
  "OP5XY0_execute s opcode =
     ebind (v_get s (op_x opcode)) (\<lambda>vx.
     ebind (v_get s (op_y opcode)) (\<lambda>vy.
     if vx = vy then Inr (s\<lparr>program_counter := program_counter s + 2\<rparr>) else Inr s))"

definition OP6XNN_execute :: "chip8_cpu \<Rightarrow> int \<Rightarrow> py_error + chip8_cpu" where
  "OP6XNN_execute s opcode = v_set s (op_x opcode) (op_nn opcode)"

definition OP7XNN_execute :: "chip8_cpu \<Rightarrow> int \<Rightarrow> py_error + chip8_cpu" where
  "OP7XNN_execute s opcode =
     ebind (v_get s (op_x opcode)) (\<lambda>vx. v_set s (op_x opcode) (vx + op_nn opcode))"

definition OP8XY0_execute :: "chip8_cpu \<Rightarrow> int \<Rightarrow> py_error + chip8_cpu" where
  "OP8XY0_execute s opcode =
     ebind (v_get s (op_y opcode)) (\<lambda>vy. v_set s (op_x opcode) vy)"

definition OP8XY1_execute :: "chip8_cpu \<Rightarrow> int \<Rightarrow> py_error + chip8_cpu" where
  "OP8XY1_execute s opcode =
     ebind (v_get s (op_x opcode)) (\<lambda>vx.
     ebind (v_get s (op_y opcode)) (\<lambda>vy.
     v_set s (op_x opcode) (vx OR vy)))"

definition OP8XY2_execute :: "chip8_cpu \<Rightarrow> int \<Rightarrow> py_error + chip8_cpu" where
  "OP8XY2_execute s opcode =
     ebind (v_get s (op_x opcode)) (\<lambda>vx.
     ebind (v_get s (op_y opcode)) (\<lambda>vy.
     v_set s (op_x opcode) (vx AND vy)))"

definition OP8XY3_execute :: "chip8_cpu \<Rightarrow> int \<Rightarrow> py_error + chip8_cpu" where
  "OP8XY3_execute s opcode =
     ebind (v_get s (op_x opcode)) (\<lambda>vx.
     ebind (v_get s (op_y opcode)) (\<lambda>vy.
     v_set s (op_x opcode) (vx XOR vy)))"

definition OP8XY4_execute :: "chip8_cpu \<Rightarrow> int \<Rightarrow> py_error + chip8_cpu" where
  "OP8XY4_execute s opcode =
     ebind (v_get s (op_x opcode)) (\<lambda>vx.
     ebind (v_get s (op_y opcode)) (\<lambda>vy.
     let result = vx + vy;
         carry = (if result > 0xff then 1 else 0)
     in ebind (v_set s (op_x opcode) (result mod 0xff)) (\<lambda>s1.
        v_set s1 0xf carry)))"

definition OP8XY5_execute :: "chip8_cpu \<Rightarrow> int \<Rightarrow> py_error + chip8_cpu" where
  "OP8XY5_execute s opcode =
     ebind (v_get s (op_x opcode)) (\<lambda>vx.
     ebind (v_get s (op_y opcode)) (\<lambda>vy.
     let result = vx - vy;
         borrow = (if result < 0 then 1 else 0);
         result = (if result < 0 then result + 0xff else result)
     in ebind (v_set s (op_x opcode) result) (\<lambda>s1.
        v_set s1 0xf (1 - borrow))))"

definition OP8XY6_execute :: "chip8_cpu \<Rightarrow> int \<Rightarrow> py_error + chip8_cpu" where
  "OP8XY6_execute s opcode =
     ebind (v_get s (op_x opcode)) (\<lambda>vx.
     let lsb = vx AND 1
     in ebind (v_set s 0xf lsb) (\<lambda>s1.
        v_set s1 (op_x opcode) (drop_bit 1 vx)))"

definition OP8XY7_execute :: "chip8_cpu \<Rightarrow> int \<Rightarrow> py_error + chip8_cpu" where
  "OP8XY7_execute s opcode =
     ebind (v_get s (op_x opcode)) (\<lambda>vx.
     ebind (v_get s (op_y opcode)) (\<lambda>vy.
     let result = vy - vx;
         borrow = (if result < 0 then 1 else 0);
         result = (if result < 0 then result + 0xff else result)
     in ebind (v_set s (op_x opcode) result) (\<lambda>s1.
        v_set s1 0xf (1 - borrow))))"

definition OP8XYE_execute :: "chip8_cpu \<Rightarrow> int \<Rightarrow> py_error + chip8_cpu" where
  "OP8XYE_execute s opcode =
     ebind (v_get s (op_x opcode)) (\<lambda>vx.
     let msb = drop_bit 7 vx
     in ebind (v_set s 0xf msb) (\<lambda>s1.
        v_set s1 (op_x opcode) (push_bit 1 vx)))"

definition OP9XY0_execute :: "chip8_cpu \<Rightarrow> int \<Rightarrow> py_error + chip8_cpu" where
  "OP9XY0_execute s opcode =
     ebind (v_get s (op_x opcode)) (\<lambda>vx.
     ebind (v_get s (op_y opcode)) (\<lambda>vy.
     if vx \<noteq> vy then Inr (s\<lparr>program_counter := program_counter s + 2\<rparr>) else Inr s))"

definition OPANNN_execute :: "chip8_cpu \<Rightarrow> int \<Rightarrow> py_error + chip8_cpu" where
  "OPANNN_execute s opcode = Inr (s\<lparr>i_register := op_nnn opcode\<rparr>)"

definition OPBNNN_execute :: "chip8_cpu \<Rightarrow> int \<Rightarrow> py_error + chip8_cpu" where
  "OPBNNN_execute s opcode =
     ebind (v_get s 0) (\<lambda>v0. Inr (s\<lparr>program_counter := op_nnn opcode + v0 - 2\<rparr>))"

text \<open>\<open>rnd\<close> is the value that \<open>random.randint\<close> returns in this call.\<close>

definition OPCXNN_execute :: "int \<Rightarrow> chip8_cpu \<Rightarrow> int \<Rightarrow> py_error + chip8_cpu" where
  "OPCXNN_execute rnd s opcode = v_set s (op_x opcode) (rnd AND op_nn opcode)"

text \<open>
  \<open>OPDXYN\<close>: the inner loop runs over \<open>xc\<close> in \<open>range(vx, vx + 8)\<close> and counts
  \<open>x_offset\<close>; it reduces \<open>xc\<close> and \<open>yc\<close> with \<open>%\<close> before it touches the screen.
  The outer loop runs over \<open>yc\<close> in \<open>range(vy, vy + n)\<close> and counts \<open>y_offset\<close>.
\<close>

fun draw_row :: "int list \<Rightarrow> int \<Rightarrow> int \<Rightarrow> int \<Rightarrow> chip8_cpu \<Rightarrow> py_error + chip8_cpu" where
  "draw_row [] yc sprite_row x_offset s = Inr s"
| "draw_row (xc # xcs) yc sprite_row x_offset s =
     (let xc = xc mod SCREEN_WIDTH;
          yc = yc mod SCREEN_HEIGHT
      in ebind (get_pixel s xc yc) (\<lambda>current_pixel.
         let sprite_pixel = (if sprite_row AND push_bit (nat (7 - x_offset)) 1 = 0 then 0 else 1);
             new_pixel = current_pixel XOR sprite_pixel
         in ebind (if current_pixel = 1 \<and> sprite_pixel = 1 then v_set s 0xf 1 else Inr s) (\<lambda>s1.
            ebind (set_pixel s1 xc yc new_pixel) (\<lambda>s2.
            draw_row xcs yc sprite_row (x_offset + 1) s2))))"

fun draw_rows :: "int list \<Rightarrow> int \<Rightarrow> int \<Rightarrow> int \<Rightarrow> chip8_cpu \<Rightarrow> py_error + chip8_cpu" where
  "draw_rows [] vx i y_offset s = Inr s"
| "draw_rows (yc # ycs) vx i y_offset s =
     ebind (py_get (memory s) (i + y_offset)) (\<lambda>sprite_row.
     ebind (draw_row [vx..vx + 8 - 1] yc sprite_row 0 s) (\<lambda>s1.
     draw_rows ycs vx i (y_offset + 1) s1))"

definition OPDXYN_execute :: "chip8_cpu \<Rightarrow> int \<Rightarrow> py_error + chip8_cpu" where
  "OPDXYN_execute s opcode =
     ebind (v_get s (op_x opcode)) (\<lambda>vx.
     ebind (v_get s (op_y opcode)) (\<lambda>vy.
     let i = i_register s
     in ebind (v_set s 0xf 0) (\<lambda>s1.
        draw_rows [vy..vy + op_n opcode - 1] vx i 0 s1)))"

definition OPEX9E_execute :: "chip8_cpu \<Rightarrow> int \<Rightarrow> py_error + chip8_cpu" where
  "OPEX9E_execute s opcode =
     ebind (v_get s (op_x opcode)) (\<lambda>vx.
     ebind (py_get (inputs s) vx) (\<lambda>key.
     if key = 1 then Inr (s\<lparr>program_counter := program_counter s + 2\<rparr>) else Inr s))"

definition OPEXA1_execute :: "chip8_cpu \<Rightarrow> int \<Rightarrow> py_error + chip8_cpu" where
  "OPEXA1_execute s opcode =
     ebind (v_get s (op_x opcode)) (\<lambda>vx.
     ebind (py_get (inputs s) vx) (\<lambda>key.
     if key = 0 then Inr (s\<lparr>program_counter := program_counter s + 2\<rparr>) else Inr s))"

definition OPFX07_execute :: "chip8_cpu \<Rightarrow> int \<Rightarrow> py_error + chip8_cpu" where
  "OPFX07_execute s opcode = v_set s (op_x opcode) (delay_timer s)"

definition OPFX0A_execute :: "int \<Rightarrow> chip8_cpu \<Rightarrow> int \<Rightarrow> py_error + chip8_cpu" where
  "OPFX0A_execute rnd s opcode = v_set s (op_x opcode) rnd"

text \<open>
  The two timer writes assign to \<open>self.delay_timer\<close> and \<open>self.sound_timer\<close>: attributes
  of the handler object, not of \<open>self.cpu\<close>.
\<close>

definition OPFX15_execute :: "chip8_cpu \<Rightarrow> int \<Rightarrow> py_error + chip8_cpu" where
  "OPFX15_execute s opcode =
     ebind (v_get s (op_x opcode)) (\<lambda>vx. Inr (s\<lparr>opfx15_delay_timer := Some vx\<rparr>))"

definition OPFX18_execute :: "chip8_cpu \<Rightarrow> int \<Rightarrow> py_error + chip8_cpu" where
  "OPFX18_execute s opcode =
     ebind (v_get s (op_x opcode)) (\<lambda>vx. Inr (s\<lparr>opfx18_sound_timer := Some vx\<rparr>))"

definition OPFX1E_execute :: "chip8_cpu \<Rightarrow> int \<Rightarrow> py_error + chip8_cpu" where
  "OPFX1E_execute s opcode =
     ebind (v_get s (op_x opcode)) (\<lambda>vx.
     let i = i_register s;
         result = i + vx
     in ebind (v_set s 0xf (if result > 0xfff then 1 else 0)) (\<lambda>s1.
        Inr (s1\<lparr>i_register := result mod 0xfff\<rparr>)))"

definition OPFX29_execute :: "chip8_cpu \<Rightarrow> int \<Rightarrow> py_error + chip8_cpu" where
  "OPFX29_execute s opcode =
     ebind (v_get s (op_x opcode)) (\<lambda>vx. Inr (s\<lparr>i_register := vx * 5\<rparr>))"

text \<open>
  \<open>OPFX33\<close> computes \<open>math.floor(vx / 100)\<close> and \<open>math.floor(vx / 10)\<close> through a
  floating-point quotient, which has the floor \<open>vx div 100\<close> (\<open>vx div 10\<close>) unless the
  rounding of a very large quotient crosses an integer. No property below is about this
  handler; it is here because the decode table holds it.
\<close>

definition OPFX33_execute :: "chip8_cpu \<Rightarrow> int \<Rightarrow> py_error + chip8_cpu" where
  "OPFX33_execute s opcode =
     ebind (v_get s (op_x opcode)) (\<lambda>vx.
     let hundreds = vx div 100;
         vx = vx - hundreds * 100;
         tens = vx div 10;
         vx = vx - tens * 10;
         units = vx;
         i = i_register s
     in ebind (mem_set s i hundreds) (\<lambda>s1.
        ebind (mem_set s1 (i + 1) tens) (\<lambda>s2.
        mem_set s2 (i + 2) units)))"

definition OPFX55_execute :: "chip8_cpu \<Rightarrow> int \<Rightarrow> py_error + chip8_cpu" where
  "OPFX55_execute s opcode =
     (let x = op_x opcode;
          i = i_register s
      in Inr (s\<lparr>memory := py_slice_assign (memory s) i (i + x + 1) (py_slice (v_registers s) 0 (x + 1))\<rparr>))"

definition OPFX65_execute :: "chip8_cpu \<Rightarrow> int \<Rightarrow> py_error + chip8_cpu" where
  "OPFX65_execute s opcode =
     (let x = op_x opcode;
          i = i_register s
      in Inr (s\<lparr>v_registers := py_slice_assign (v_registers s) 0 (x + 1) (py_slice (memory s) i (i + x + 1))\<rparr>))"

section \<open>Decode, execute, cycle\<close>

datatype instruction =
    OP0NNN | OP00E0 | OP00EE | OP1NNN | OP2NNN | OP3XNN | OP4XNN | OP5XY0 | OP6XNN | OP7XNN
  | OP8XY0 | OP8XY1 | OP8XY2 | OP8XY3 | OP8XY4 | OP8XY5 | OP8XY6 | OP8XY7 | OP8XYE | OP9XY0
  | OPANNN | OPBNNN | OPCXNN | OPDXYN | OPEX9E | OPEXA1 | OPFX07 | OPFX0A | OPFX15 | OPFX18
  | OPFX1E | OPFX29 | OPFX33 | OPFX55 | OPFX65

text \<open>The table of \<open>Chip8CPU.__init__\<close>: mask, expected result, instruction, in the source's order.\<close>

definition opcode_table :: "(int \<times> int \<times> instruction) list" where
  "opcode_table =
     [(0xf000, 0x0fff, OP0NNN),
      (0xffff, 0x00e0, OP00E0),
      (0xffff, 0x00ee, OP00EE),
      (0xf000, 0x1000, OP1NNN),
      (0xf000, 0x2000, OP2NNN),
      (0xf000, 0x3000, OP3XNN),
      (0xf000, 0x4000, OP4XNN),
      (0xf00f, 0x5000, OP5XY0),
      (0xf000, 0x6000, OP6XNN),
      (0xf000, 0x7000, OP7XNN),
      (0xf00f, 0x8000, OP8XY0),
      (0xf00f, 0x8001, OP8XY1),
      (0xf00f, 0x8002, OP8XY2),
      (0xf00f, 0x8003, OP8XY3),
      (0xf00f, 0x8004, OP8XY4),
      (0xf00f, 0x8005, OP8XY5),
      (0xf00f, 0x8006, OP8XY6),
      (0xf00f, 0x8007, OP8XY7),
      (0xf00f, 0x800e, OP8XYE),
      (0xf00f, 0x9000, OP9XY0),
      (0xf000, 0xa000, OPANNN),
      (0xf000, 0xb000, OPBNNN),
      (0xf000, 0xc000, OPCXNN),
      (0xf000, 0xd000, OPDXYN),
      (0xf0ff, 0xe09e, OPEX9E),
      (0xf0ff, 0xe0a1, OPEXA1),
      (0xf0ff, 0xf007, OPFX07),
      (0xf0ff, 0xf00a, OPFX0A),
      (0xf0ff, 0xf015, OPFX15),
      (0xf0ff, 0xf018, OPFX18),
      (0xf0ff, 0xf01e, OPFX1E),
      (0xf0ff, 0xf029, OPFX29),
      (0xf0ff, 0xf033, OPFX33),
      (0xf0ff, 0xf055, OPFX55),
      (0xf0ff, 0xf065, OPFX65)]"

text \<open>
  \<open>decode\<close> returns the instruction of the first entry that matches; when the loop ends
  without a match the Python function falls off its end and returns \<open>None\<close>.
\<close>

fun decode_loop :: "(int \<times> int \<times> instruction) list \<Rightarrow> int \<Rightarrow> instruction option" where
  "decode_loop [] opcode = None"
| "decode_loop ((bitmask, result, instruction) # rest) opcode =
     (if opcode AND bitmask = result then Some instruction else decode_loop rest opcode)"

definition decode :: "int \<Rightarrow> instruction option" where
  "decode opcode = decode_loop opcode_table opcode"

fun instruction_execute :: "instruction \<Rightarrow> int \<Rightarrow> chip8_cpu \<Rightarrow> int \<Rightarrow> py_error + chip8_cpu" where
  "instruction_execute OP0NNN rnd s opcode = OP0NNN_execute s opcode"
| "instruction_execute OP00E0 rnd s opcode = OP00E0_execute s opcode"
| "instruction_execute OP00EE rnd s opcode = OP00EE_execute s opcode"
| "instruction_execute OP1NNN rnd s opcode = OP1NNN_execute s opcode"
| "instruction_execute OP2NNN rnd s opcode = OP2NNN_execute s opcode"
| "instruction_execute OP3XNN rnd s opcode = OP3XNN_execute s opcode"
| "instruction_execute OP4XNN rnd s opcode = OP4XNN_execute s opcode"
| "instruction_execute OP5XY0 rnd s opcode = OP5XY0_execute s opcode"
| "instruction_execute OP6XNN rnd s opcode = OP6XNN_execute s opcode"
| "instruction_execute OP7XNN rnd s opcode = OP7XNN_execute s opcode"
| "instruction_execute OP8XY0 rnd s opcode = OP8XY0_execute s opcode"
| "instruction_execute OP8XY1 rnd s opcode = OP8XY1_execute s opcode"
| "instruction_execute OP8XY2 rnd s opcode = OP8XY2_execute s opcode"
| "instruction_execute OP8XY3 rnd s opcode = OP8XY3_execute s opcode"
| "instruction_execute OP8XY4 rnd s opcode = OP8XY4_execute s opcode"
| "instruction_execute OP8XY5 rnd s opcode = OP8XY5_execute s opcode"
| "instruction_execute OP8XY6 rnd s opcode = OP8XY6_execute s opcode"
| "instruction_execute OP8XY7 rnd s opcode = OP8XY7_execute s opcode"
| "instruction_execute OP8XYE rnd s opcode = OP8XYE_execute s opcode"
| "instruction_execute OP9XY0 rnd s opcode = OP9XY0_execute s opcode"
| "instruction_execute OPANNN rnd s opcode = OPANNN_execute s opcode"
| "instruction_execute OPBNNN rnd s opcode = OPBNNN_execute s opcode"
| "instruction_execute OPCXNN rnd s opcode = OPCXNN_execute rnd s opcode"
| "instruction_execute OPDXYN rnd s opcode = OPDXYN_execute s opcode"
| "instruction_execute OPEX9E rnd s opcode = OPEX9E_execute s opcode"
| "instruction_execute OPEXA1 rnd s opcode = OPEXA1_execute s opcode"
| "instruction_execute OPFX07 rnd s opcode = OPFX07_execute s opcode"
| "instruction_execute OPFX0A rnd s opcode = OPFX0A_execute rnd s opcode"
| "instruction_execute OPFX15 rnd s opcode = OPFX15_execute s opcode"
| "instruction_execute OPFX18 rnd s opcode = OPFX18_execute s opcode"
| "instruction_execute OPFX1E rnd s opcode = OPFX1E_execute s opcode"
| "instruction_execute OPFX29 rnd s opcode = OPFX29_execute s opcode"
| "instruction_execute OPFX33 rnd s opcode = OPFX33_execute s opcode"
| "instruction_execute OPFX55 rnd s opcode = OPFX55_execute s opcode"
| "instruction_execute OPFX65 rnd s opcode = OPFX65_execute s opcode"

text \<open>
  \<open>Chip8CPU.execute\<close> calls \<open>instruction.execute(opcode)\<close>; on \<open>None\<close> the attribute
  lookup raises \<open>AttributeError\<close>.
\<close>

definition execute :: "int \<Rightarrow> chip8_cpu \<Rightarrow> instruction option \<Rightarrow> int \<Rightarrow> py_error + chip8_cpu" where
  "execute rnd s instruction opcode =
     (case instruction of
        None \<Rightarrow> Inl AttributeError
      | Some handler \<Rightarrow> instruction_execute handler rnd s opcode)"

definition cycle :: "int \<Rightarrow> chip8_cpu \<Rightarrow> py_error + chip8_cpu" where
  "cycle rnd s =
     ebind (fetch s) (\<lambda>(opcode, s1).
     let instruction = decode opcode
     in ebind (execute rnd s1 instruction opcode) (\<lambda>s2.
        Inr (update_pc s2)))"

text \<open>A run of cycles, one random value for each; it stops at the first error.\<close>

fun cycles :: "int list \<Rightarrow> chip8_cpu \<Rightarrow> py_error + chip8_cpu" where
  "cycles [] s = Inr s"
| "cycles (rnd # rnds) s = ebind (cycle rnd s) (cycles rnds)"

section \<open>Programs and states used as concrete inputs\<close>

text \<open>
  ROM images, as the byte lists that \<open>load_rom\<close> copies to 0x200.
  \<open>timer_rom\<close>: \<open>602A\<close> (V0 = 42), \<open>F015\<close> (delay timer = V0), \<open>F018\<close> (sound timer = V0),
  \<open>F107\<close> (V1 = delay timer).
  \<open>shift_right_rom\<close>: \<open>6F06\<close> (VF = 6), \<open>8F06\<close> (shift VF right).
  \<open>shift_left_rom\<close>: \<open>6080\<close> (V0 = 0x80), \<open>800E\<close> twice (shift V0 left).
\<close>

definition timer_rom :: "int list" where
  "timer_rom = [0x60, 0x2A, 0xF0, 0x15, 0xF0, 0x18, 0xF1, 0x07]"

definition shift_right_rom :: "int list" where
  "shift_right_rom = [0x6F, 0x06, 0x8F, 0x06]"

definition shift_left_rom :: "int list" where
  "shift_left_rom = [0x60, 0x80, 0x80, 0x0E, 0x80, 0x0E]"

text \<open>The state after a reset and the load of the two bytes 0xFF 0xFF: the opcode at 0x200 is 0xFFFF.\<close>

definition unmatched_state :: chip8_cpu where
  "unmatched_state = reset_cpu\<lparr>memory := (memory reset_cpu)[512 := 0xFF, 513 := 0xFF]\<rparr>"

text \<open>
  \<open>block_rom\<close>: \<open>60FF\<close>, \<open>70FF\<close> three times (V0 = 1020, since the add does not wrap),
  \<open>F029\<close> (I = V0 * 5 = 5100), \<open>F355\<close> (store V0..V3), \<open>F365\<close> (load V0..V3).
  \<open>block_state\<close> is the state after a reset and the load of \<open>block_rom\<close>.
\<close>

definition block_rom :: "int list" where
  "block_rom = [0x60, 0xFF, 0x70, 0xFF, 0x70, 0xFF, 0x70, 0xFF, 0xF0, 0x29, 0xF3, 0x55, 0xF3, 0x65]"

definition block_state :: chip8_cpu where
  "block_state = reset_cpu\<lparr>memory := (memory reset_cpu)
     [512 := 0x60, 513 := 0xFF, 514 := 0x70, 515 := 0xFF, 516 := 0x70, 517 := 0xFF, 518 := 0x70, 519 := 0xFF,
      520 := 0xF0, 521 := 0x29, 522 := 0xF3, 523 := 0x55, 524 := 0xF3, 525 := 0x65]\<rparr>"

text \<open>A state with sixteen different register values and I at the last byte of memory.\<close>

definition block_edge_state :: chip8_cpu where
  "block_edge_state =
     reset_cpu\<lparr>v_registers := [1, 2, 3, 4, 5, 6, 7, 8, 9, 10, 11, 12, 13, 14, 15, 16], i_register := 4095\<rparr>"

section \<open>Notions used to state the drawing properties\<close>

text \<open>
  The shape that \<open>reset_screen\<close> creates and \<open>set_pixel\<close> keeps: 32 rows of 64 pixels.
  \<open>sprite_bit sprite_row k\<close> is the value \<open>OPDXYN\<close> computes for \<open>sprite_pixel\<close> at
  \<open>x_offset = k\<close>.
\<close>

definition screen_ok :: "int list list \<Rightarrow> bool" where
  "screen_ok sc \<longleftrightarrow> length sc = 32 \<and> (\<forall>row \<in> set sc. length row = 64)"

definition sprite_bit :: "int \<Rightarrow> nat \<Rightarrow> int" where
  "sprite_bit sprite_row k = (if sprite_row AND push_bit (7 - k) 1 = 0 then 0 else 1)"

text \<open>
  The framebuffer after an 8x1 sprite 0xFF is drawn at (0, 0) on a cleared screen; a state
  after reset with the byte 0xFF at 0x300 and I = 0x300; and the same state with V0 = 60.
\<close>

definition first_draw_screen :: "int list list" where
  "first_draw_screen =
     blank_screen[0 := (replicate 64 0)[0 := 1, 1 := 1, 2 := 1, 3 := 1, 4 := 1, 5 := 1, 6 := 1, 7 := 1]]"

definition sprite_state :: chip8_cpu where
  "sprite_state = reset_cpu\<lparr>memory := (memory reset_cpu)[768 := 0xFF], i_register := 768\<rparr>"

definition wrap_state :: chip8_cpu where
  "wrap_state = sprite_state\<lparr>v_registers := (replicate 16 0)[0 := 60]\<rparr>"

section \<open>Basic facts about the Python operations\<close>

lemma ebind_Inr [simp]: "ebind (Inr v) f = f v"
  by (simp add: ebind_def)

lemma ebind_Inl [simp]: "ebind (Inl e) f = Inl e"
  by (simp add: ebind_def)

lemma py_index_in_range: "0 \<le> i \<Longrightarrow> i < int n \<Longrightarrow> py_index n i = Some (nat i)"
  by (simp add: py_index_def)

lemma py_get_in_range: "0 \<le> i \<Longrightarrow> i < int (length xs) \<Longrightarrow> py_get xs i = Inr (xs ! nat i)"
  by (simp add: py_get_def py_index_in_range)

lemma py_set_in_range: "0 \<le> i \<Longrightarrow> i < int (length xs) \<Longrightarrow> py_set xs i v = Inr (xs[nat i := v])"
  by (simp add: py_set_def py_index_in_range)

lemma op_x_range: "0 \<le> op_x opcode \<and> op_x opcode < 16"
proof -
  have "0 \<le> opcode AND 0x0f00"
    by simp
  moreover have "opcode AND 0x0f00 \<le> 0x0f00"
    by (rule AND_upper2) simp
  moreover have "0 \<le> a \<Longrightarrow> a \<le> 0x0f00 \<Longrightarrow> 0 \<le> a div 256 \<and> a div 256 < 16" for a :: int
    by arith
  ultimately show ?thesis
    unfolding op_x_def drop_bit_eq_div by fastforce
qed

lemma op_y_range: "0 \<le> op_y opcode \<and> op_y opcode < 16"
proof -
  have "0 \<le> opcode AND 0x00f0"
    by simp
  moreover have "opcode AND 0x00f0 \<le> 0x00f0"
    by (rule AND_upper2) simp
  moreover have "0 \<le> a \<Longrightarrow> a \<le> 0x00f0 \<Longrightarrow> 0 \<le> a div 16 \<and> a div 16 < 16" for a :: int
    by arith
  ultimately show ?thesis
    unfolding op_y_def drop_bit_eq_div by fastforce
qed

lemma op_n_range: "0 \<le> op_n opcode \<and> op_n opcode < 16"
proof -
  have "0 \<le> opcode AND 0x000f"
    by simp
  moreover have "opcode AND 0x000f \<le> 0x000f"
    by (rule AND_upper2) simp
  ultimately show ?thesis
    by (simp add: op_n_def)
qed

lemma v_get_ok:
  "length (v_registers s) = 16 \<Longrightarrow> 0 \<le> k \<Longrightarrow> k < 16 \<Longrightarrow> v_get s k = Inr (v_registers s ! nat k)"
  by (simp add: v_get_def py_get_in_range)

lemma v_set_ok:
  "length (v_registers s) = 16 \<Longrightarrow> 0 \<le> k \<Longrightarrow> k < 16 \<Longrightarrow>
   v_set s k v = Inr (s\<lparr>v_registers := (v_registers s)[nat k := v]\<rparr>)"
  by (simp add: v_set_def py_set_in_range)

lemma length_font_sprites: "length font_sprites = 80"
  by (simp add: font_sprites_def)

lemma memory_reset_cpu: "memory reset_cpu = font_sprites @ replicate 4016 0"
  by (simp add: reset_cpu_def init_character_sprites_def reset_screen_def py_slice_assign_def
      py_clip_def length_font_sprites)

lemma v_registers_reset_cpu: "v_registers reset_cpu = replicate 16 0"
  by (simp add: reset_cpu_def init_character_sprites_def reset_screen_def)

lemma program_counter_reset_cpu: "program_counter reset_cpu = 0x200"
  by (simp add: reset_cpu_def init_character_sprites_def reset_screen_def START_ADDRESS_def)

lemma reset_cpu_fields:
  "delay_timer reset_cpu = 0" "sound_timer reset_cpu = 0" "i_register reset_cpu = 0"
  "stack reset_cpu = []" "inputs reset_cpu = replicate 16 0" "screen reset_cpu = blank_screen"
  "opfx15_delay_timer reset_cpu = None" "opfx18_sound_timer reset_cpu = None"
  by (simp_all add: reset_cpu_def init_character_sprites_def reset_screen_def)

text \<open>The equations that evaluate a cycle on a state built from \<open>reset_cpu\<close>.\<close>

lemmas run_simps = cycle_def fetch_def decode_def opcode_table_def execute_def update_pc_def
  load_rom_def START_ADDRESS_def
  py_get_in_range py_set_in_range v_get_def v_set_def op_x_def op_y_def op_nn_def op_n_def op_nnn_def
  memory_reset_cpu length_font_sprites program_counter_reset_cpu v_registers_reset_cpu reset_cpu_fields
  drop_bit_eq_div push_bit_eq_mult nth_append

section \<open>Add with carry\<close>

text \<open>
  C1. \<open>OP8XY4\<close>, on a register file of 16 registers and for all register values: the
  handler returns normally; afterwards VF is 1 if VX + VY is above 255 and 0 otherwise;
  it stores the sum modulo 255 (not 256) into VX and then the carry into VF, so VX
  holds the sum modulo 255 whenever X is not the flag register itself.
\<close>

theorem OP8XY4_carry_and_sum_mod_255:
  assumes len: "length (v_registers s) = 16"
  shows "\<exists>s'. OP8XY4_execute s opcode = Inr s'
     \<and> v_registers s' ! 15 =
         (if v_registers s ! nat (op_x opcode) + v_registers s ! nat (op_y opcode) > 255 then 1 else 0)
     \<and> (op_x opcode \<noteq> 15 \<longrightarrow> v_registers s' ! nat (op_x opcode) =
           (v_registers s ! nat (op_x opcode) + v_registers s ! nat (op_y opcode)) mod 255)
     \<and> s' = s\<lparr>v_registers := (v_registers s)
          [nat (op_x opcode) := (v_registers s ! nat (op_x opcode) + v_registers s ! nat (op_y opcode)) mod 255,
           15 := (if v_registers s ! nat (op_x opcode) + v_registers s ! nat (op_y opcode) > 255 then 1 else 0)]\<rparr>"
proof -
  have x: "0 \<le> op_x opcode" "op_x opcode < 16" and y: "0 \<le> op_y opcode" "op_y opcode < 16"
    using op_x_range [of opcode] op_y_range [of opcode] by simp_all
  have "op_x opcode \<noteq> 15 \<Longrightarrow> nat (op_x opcode) \<noteq> 15"
    using x by linarith
  then show ?thesis
    using len x y by (simp add: OP8XY4_execute_def v_get_ok v_set_ok Let_def)
qed

text \<open>At V0 = 200, V1 = 55 the sum is 255: no carry, and V0 becomes 0 where modulo 256 would keep 255.\<close>

theorem OP8XY4_carry_and_sum_mod_255_witness:
  "length (v_registers (reset_cpu\<lparr>v_registers := [200, 55, 7, 0, 0, 0, 0, 0, 0, 0, 0, 0, 0, 0, 0, 9]\<rparr>)) = 16
   \<and> op_x 0x8014 \<noteq> 15
   \<and> OP8XY4_execute (reset_cpu\<lparr>v_registers := [200, 55, 7, 0, 0, 0, 0, 0, 0, 0, 0, 0, 0, 0, 0, 9]\<rparr>) 0x8014
      = Inr (reset_cpu\<lparr>v_registers := [0, 55, 7, 0, 0, 0, 0, 0, 0, 0, 0, 0, 0, 0, 0, 0]\<rparr>)"
proof -
  have nib: "op_x 0x8014 = 0" "op_y 0x8014 = 1"
    by (simp_all add: op_x_def op_y_def drop_bit_eq_div)
  show ?thesis
    using OP8XY4_carry_and_sum_mod_255
      [of "reset_cpu\<lparr>v_registers := [200, 55, 7, 0, 0, 0, 0, 0, 0, 0, 0, 0, 0, 0, 0, 9]\<rparr>" "0x8014"]
    by (simp add: nib)
qed

section \<open>Timers\<close>

text \<open>
  C8. One call of \<open>update_timers\<close> takes 1 off the delay timer and off the sound timer
  when the timer is above 0 and leaves it as it is otherwise; a timer that is not negative
  stays so; and from \<open>delay_timer = 2\<close> the timer reads 1 after one tick and 0 after two
  ticks and after any larger number of ticks.
\<close>

theorem update_timers_count_down:
  "delay_timer (update_timers s) = (if delay_timer s > 0 then delay_timer s - 1 else delay_timer s)
   \<and> sound_timer (update_timers s) = (if sound_timer s > 0 then sound_timer s - 1 else sound_timer s)
   \<and> (0 \<le> delay_timer s \<longrightarrow> 0 \<le> delay_timer (update_timers s))
   \<and> (0 \<le> sound_timer s \<longrightarrow> 0 \<le> sound_timer (update_timers s))
   \<and> (delay_timer s = 2 \<longrightarrow>
        delay_timer (update_timers s) = 1 \<and> (\<forall>k\<ge>2. delay_timer ((update_timers ^^ k) s) = 0))"
proof -
  have step: "delay_timer (update_timers t) = (if delay_timer t > 0 then delay_timer t - 1 else delay_timer t)" for t
    by (simp add: update_timers_def Let_def)
  have stay: "delay_timer t = 0 \<Longrightarrow> delay_timer ((update_timers ^^ k) t) = 0" for k t
    by (induction k) (simp_all add: step)
  have two: "delay_timer ((update_timers ^^ k) s) = 0" if d: "delay_timer s = 2" and k: "2 \<le> k" for k
  proof -
    obtain m where m: "k = m + 2"
      using k by (metis le_add_diff_inverse2)
    have "delay_timer ((update_timers ^^ 2) s) = 0"
      using d by (simp add: numeral_2_eq_2 step)
    then have "delay_timer ((update_timers ^^ m) ((update_timers ^^ 2) s)) = 0"
      by (rule stay)
    then show ?thesis
      unfolding m by (simp only: funpow_add o_apply)
  qed
  have snd: "sound_timer (update_timers s) = (if sound_timer s > 0 then sound_timer s - 1 else sound_timer s)"
    by (simp add: update_timers_def Let_def)
  show ?thesis
    using two by (simp add: step snd)
qed

theorem update_timers_count_down_witness:
  "delay_timer (reset_cpu\<lparr>delay_timer := 2, sound_timer := 1\<rparr>) = 2
   \<and> 0 \<le> sound_timer (reset_cpu\<lparr>delay_timer := 2, sound_timer := 1\<rparr>)
   \<and> delay_timer (update_timers (reset_cpu\<lparr>delay_timer := 2, sound_timer := 1\<rparr>)) = 1
   \<and> sound_timer (update_timers (reset_cpu\<lparr>delay_timer := 2, sound_timer := 1\<rparr>)) = 0
   \<and> delay_timer ((update_timers ^^ 2) (reset_cpu\<lparr>delay_timer := 2, sound_timer := 1\<rparr>)) = 0
   \<and> delay_timer ((update_timers ^^ 5) (reset_cpu\<lparr>delay_timer := 2, sound_timer := 1\<rparr>)) = 0"
proof -
  let ?s = "reset_cpu\<lparr>delay_timer := 2, sound_timer := 1\<rparr>"
  note t = update_timers_count_down [of ?s]
  have d: "delay_timer ?s = 2" and sd: "sound_timer ?s = 1"
    by simp_all
  from t d have all: "\<forall>k\<ge>2. delay_timer ((update_timers ^^ k) ?s) = 0"
    by blast
  have "delay_timer ((update_timers ^^ 2) ?s) = 0" "delay_timer ((update_timers ^^ 5) ?s) = 0"
    using all by simp_all
  moreover have "delay_timer (update_timers ?s) = 1" "sound_timer (update_timers ?s) = 0"
    using t d sd by simp_all
  ultimately show ?thesis
    using d sd by simp
qed

section \<open>Fetch\<close>

text \<open>
  C10. With a memory of (at least) 4096 bytes and a program counter \<open>pc\<close> that is not negative and has
  \<open>pc + 1 < 4096\<close>, \<open>fetch\<close> returns \<open>memory[pc] * 256 + memory[pc + 1]\<close>, the byte at
  \<open>pc\<close> being the high-order one, and the state is the one it was given.
\<close>

theorem fetch_big_endian:
  assumes "4096 \<le> length (memory s)" and "0 \<le> program_counter s" and "program_counter s + 1 < 4096"
  shows "fetch s = Inr (memory s ! nat (program_counter s) * 256 + memory s ! nat (program_counter s + 1), s)"
  using assms by (simp add: fetch_def py_get_in_range push_bit_eq_mult)

text \<open>After a reset, with the bytes 0x12 0x34 at 0x200, the opcode fetched is 0x1234.\<close>

theorem fetch_big_endian_witness:
  "length (memory (reset_cpu\<lparr>memory := (memory reset_cpu)[512 := 0x12, 513 := 0x34]\<rparr>)) = 4096
   \<and> 0 \<le> program_counter (reset_cpu\<lparr>memory := (memory reset_cpu)[512 := 0x12, 513 := 0x34]\<rparr>)
   \<and> program_counter (reset_cpu\<lparr>memory := (memory reset_cpu)[512 := 0x12, 513 := 0x34]\<rparr>) + 1 < 4096
   \<and> fetch (reset_cpu\<lparr>memory := (memory reset_cpu)[512 := 0x12, 513 := 0x34]\<rparr>)
      = Inr (0x1234, reset_cpu\<lparr>memory := (memory reset_cpu)[512 := 0x12, 513 := 0x34]\<rparr>)"
  using fetch_big_endian [of "reset_cpu\<lparr>memory := (memory reset_cpu)[512 := 0x12, 513 := 0x34]\<rparr>"]
  by (simp add: memory_reset_cpu length_font_sprites program_counter_reset_cpu)

section \<open>Timer writes\<close>

text \<open>
  C2. The claim is that \<open>FX15\<close> and \<open>FX18\<close> store VX into the CPU's delay and sound timer.
  The handlers assign to an attribute of the handler object instead. Run from a reset on
  \<open>timer_rom\<close>: after V0 = 42 and both timer writes the CPU's timers are still 0, the
  timer read puts 0 into V1, a timer tick changes nothing, and the value 42 sits in the
  two handler attributes.
\<close>

theorem timer_writes_miss_the_cpu:
  "\<exists>s s'. load_rom timer_rom reset_cpu = Inr s \<and> cycles [0, 0, 0, 0] s = Inr s'
     \<and> v_registers s' ! 0 = 42 \<and> delay_timer s' = 0 \<and> sound_timer s' = 0
     \<and> v_registers s' ! 1 = 0 \<and> update_timers s' = s'
     \<and> opfx15_delay_timer s' = Some 42 \<and> opfx18_sound_timer s' = Some 42"
  by (simp add: run_simps timer_rom_def update_timers_def
      OP6XNN_execute_def OPFX15_execute_def OPFX18_execute_def OPFX07_execute_def)

section \<open>Decoding\<close>

lemma first_entry_never_matches: "opcode AND 0xf000 \<noteq> (0x0fff :: int)"
proof
  assume "opcode AND 0xf000 = (0x0fff :: int)"
  then have "(opcode AND 0xf000) AND 1 = (0x0fff :: int) AND 1"
    by simp
  then show False
    by (simp add: and.assoc)
qed


text \<open>
  C3. The claim is that every opcode 0x0NNN other than 0x00E0 and 0x00EE decodes to the
  \<open>OP0NNN\<close> handler. The entry of that handler, the first of the table, expects
  \<open>opcode & 0xf000 == 0x0fff\<close>, which no opcode satisfies: \<open>decode\<close> never returns
  \<open>OP0NNN\<close>, the opcode 0x0123 decodes to \<open>None\<close>, and executing that raises
  \<open>AttributeError\<close>. The handler itself, were it reached, would change nothing.
\<close>

theorem decode_0NNN_returns_no_handler:
  "decode 0x0123 = None \<and> (\<forall>opcode. decode opcode \<noteq> Some OP0NNN)
   \<and> execute rnd s (decode 0x0123) 0x0123 = Inl AttributeError
   \<and> OP0NNN_execute s opcode = Inr s"
  by (simp add: decode_def opcode_table_def first_entry_never_matches execute_def OP0NNN_execute_def)

section \<open>A cycle on an opcode that matches no entry\<close>

lemma load_unmatched_state: "load_rom [0xFF, 0xFF] reset_cpu = Inr unmatched_state"
  by (simp add: run_simps unmatched_state_def)





section \<open>The flag register after the shifts\<close>

text \<open>
  Add, the two subtractions, the addition to I and (further down) the draw write a flag
  that is 0 or 1, and so do the shifts as long as X is not F and, for the left shift, VX
  is a byte.
\<close>

lemma flag_is_bit_after_arithmetic:
  assumes len: "length (v_registers s) = 16"
  shows "\<exists>s'. OP8XY4_execute s opcode = Inr s' \<and> (v_registers s' ! 15 = 0 \<or> v_registers s' ! 15 = 1)"
    and "\<exists>s'. OP8XY5_execute s opcode = Inr s' \<and> (v_registers s' ! 15 = 0 \<or> v_registers s' ! 15 = 1)"
    and "\<exists>s'. OP8XY7_execute s opcode = Inr s' \<and> (v_registers s' ! 15 = 0 \<or> v_registers s' ! 15 = 1)"
    and "\<exists>s'. OPFX1E_execute s opcode = Inr s' \<and> (v_registers s' ! 15 = 0 \<or> v_registers s' ! 15 = 1)"
proof -
  have x: "0 \<le> op_x opcode" "op_x opcode < 16" and y: "0 \<le> op_y opcode" "op_y opcode < 16"
    using op_x_range [of opcode] op_y_range [of opcode] by simp_all
  show "\<exists>s'. OP8XY4_execute s opcode = Inr s' \<and> (v_registers s' ! 15 = 0 \<or> v_registers s' ! 15 = 1)"
    using len x y by (simp add: OP8XY4_execute_def v_get_ok v_set_ok Let_def)
  show "\<exists>s'. OP8XY5_execute s opcode = Inr s' \<and> (v_registers s' ! 15 = 0 \<or> v_registers s' ! 15 = 1)"
    using len x y by (simp add: OP8XY5_execute_def v_get_ok v_set_ok Let_def)
  show "\<exists>s'. OP8XY7_execute s opcode = Inr s' \<and> (v_registers s' ! 15 = 0 \<or> v_registers s' ! 15 = 1)"
    using len x y by (simp add: OP8XY7_execute_def v_get_ok v_set_ok Let_def)
  show "\<exists>s'. OPFX1E_execute s opcode = Inr s' \<and> (v_registers s' ! 15 = 0 \<or> v_registers s' ! 15 = 1)"
    using len x y by (simp add: OPFX1E_execute_def v_get_ok v_set_ok Let_def)
qed

lemma flag_after_shifts:
  assumes len: "length (v_registers s) = 16" and x: "op_x opcode \<noteq> 15"
  shows "\<exists>s'. OP8XY6_execute s opcode = Inr s' \<and> (v_registers s' ! 15 = 0 \<or> v_registers s' ! 15 = 1)"
    and "0 \<le> v_registers s ! nat (op_x opcode) \<Longrightarrow> v_registers s ! nat (op_x opcode) < 256 \<Longrightarrow>
         \<exists>s'. OP8XYE_execute s opcode = Inr s' \<and> (v_registers s' ! 15 = 0 \<or> v_registers s' ! 15 = 1)"
proof -
  have r: "0 \<le> op_x opcode" "op_x opcode < 16"
    using op_x_range [of opcode] by simp_all
  have ne: "nat (op_x opcode) \<noteq> 15"
    using x r by linarith
  have bit: "a AND 1 = 0 \<or> a AND 1 = 1" for a :: int
    by (simp add: and_one_eq) presburger
  show "\<exists>s'. OP8XY6_execute s opcode = Inr s' \<and> (v_registers s' ! 15 = 0 \<or> v_registers s' ! 15 = 1)"
    using len r ne bit [of "v_registers s ! nat (op_x opcode)"]
    by (simp add: OP8XY6_execute_def v_get_ok v_set_ok Let_def)
  assume "0 \<le> v_registers s ! nat (op_x opcode)" "v_registers s ! nat (op_x opcode) < 256"
  then have "drop_bit 7 (v_registers s ! nat (op_x opcode)) = 0 \<or> drop_bit 7 (v_registers s ! nat (op_x opcode)) = 1"
    unfolding drop_bit_eq_div by simp presburger
  then show "\<exists>s'. OP8XYE_execute s opcode = Inr s' \<and> (v_registers s' ! 15 = 0 \<or> v_registers s' ! 15 = 1)"
    using len r ne by (simp add: OP8XYE_execute_def v_get_ok v_set_ok Let_def)
qed

text \<open>
  C5. The claim is that VF is 0 or 1 after every instruction that defines a flag. Both
  shifts break it. \<open>OP8XY6\<close> and \<open>OP8XYE\<close> write VF first and VX second, so with X = F
  the shifted value lands in VF: \<open>shift_right_rom\<close> leaves VF = 3. And \<open>OP8XYE\<close> takes
  \<open>vx >> 7\<close> of a register that nothing keeps below 256: \<open>shift_left_rom\<close> leaves
  V0 = 0x200 and VF = 2.
\<close>

theorem shift_flag_not_a_bit:
  "(\<exists>s s'. load_rom shift_right_rom reset_cpu = Inr s \<and> cycles [0, 0] s = Inr s'
      \<and> v_registers s' ! 15 = 3)
   \<and> (\<exists>s s'. load_rom shift_left_rom reset_cpu = Inr s \<and> cycles [0, 0, 0] s = Inr s'
      \<and> v_registers s' ! 0 = 0x200 \<and> v_registers s' ! 15 = 2)"
  by (simp add: run_simps shift_right_rom_def shift_left_rom_def
      OP6XNN_execute_def OP8XY6_execute_def OP8XYE_execute_def)

section \<open>Block store and block load\<close>

lemma py_clip_nonneg: "0 \<le> i \<Longrightarrow> py_clip n i = min (nat i) n"
  by (simp add: py_clip_def)

lemma py_slice_nonneg:
  "0 \<le> a \<Longrightarrow> 0 \<le> b \<Longrightarrow> py_slice xs a b = take (nat b - nat a) (drop (nat a) xs)"
  by (simp add: py_slice_def py_clip_nonneg Let_def min_def)

lemma py_slice_assign_nonneg:
  "0 \<le> a \<Longrightarrow> a \<le> b \<Longrightarrow> py_slice_assign xs a b ys = take (nat a) xs @ ys @ drop (nat b) xs"
  by (auto simp add: py_slice_assign_def py_clip_nonneg Let_def min_def max_def)

lemma cycles_append: "cycles (xs @ ys) s = ebind (cycles xs s) (cycles ys)"
  by (induction xs arbitrary: s) (simp_all add: ebind_def split: sum.splits)

lemma load_block_rom: "load_rom block_rom reset_cpu = Inr block_state"
  by (simp add: run_simps block_rom_def block_state_def)

lemma block_state_5: "cycles [0, 0, 0, 0, 0] block_state =
    Inr (block_state\<lparr>v_registers := (replicate 16 0)[0 := 1020], i_register := 5100, program_counter := 522\<rparr>)"
  by (simp add: run_simps block_state_def OP6XNN_execute_def OP7XNN_execute_def OPFX29_execute_def)

text \<open>
  C9, as stated, for every address I: it fails when I lies beyond the end of memory.
  \<open>block_rom\<close> reaches V0 = 1020 and I = 5100 in five cycles. The store then appends
  V0..V3 to the memory list, the load reads the empty slice \<open>memory[5100:5104]\<close> and the
  slice assignment deletes V0..V3 from the register list: twelve registers are left and V0
  is 0, not 1020.
\<close>

theorem store_then_load_round_trip_counterexample:
  "map_sum id v_registers (cycles [0, 0, 0, 0, 0] block_state) = Inr ((replicate 16 0)[0 := 1020])
   \<and> map_sum id i_register (cycles [0, 0, 0, 0, 0] block_state) = Inr 5100
   \<and> map_sum id v_registers (cycles [0, 0, 0, 0, 0, 0, 0] block_state) = Inr (replicate 12 0)"
proof -
  have split: "[0, 0, 0, 0, 0, 0, 0] = [0, 0, 0, 0, 0] @ [0, 0 :: int]"
    by simp
  have "cycles [0, 0, 0, 0, 0, 0, 0] block_state =
      cycles [0, 0] (block_state\<lparr>v_registers := (replicate 16 0)[0 := 1020], i_register := 5100, program_counter := 522\<rparr>)"
    by (simp only: split cycles_append block_state_5 ebind_Inr)
  also have "map_sum id v_registers \<dots> = Inr (replicate 12 0)"
    by (simp add: run_simps block_state_def OPFX55_execute_def OPFX65_execute_def
        py_slice_def py_slice_assign_def py_clip_def Let_def)
  finally have seven: "map_sum id v_registers (cycles [0, 0, 0, 0, 0, 0, 0] block_state) = Inr (replicate 12 0)" .
  show ?thesis
    unfolding seven block_state_5 by simp
qed

text \<open>
  C9, amended: on a register file of 16 registers and for every I from 0 up to the length
  of memory, the store \<open>FX55\<close> followed by the load \<open>FX65\<close> with the same X returns
  normally, the slice of memory at I holds V0..VX, and the whole register file, V0..VX in
  particular, is as it was before the store.
\<close>

theorem store_then_load_round_trip:
  assumes len: "length (v_registers s) = 16"
    and i0: "0 \<le> i_register s" and i1: "i_register s \<le> int (length (memory s))"
    and same: "op_x opcode65 = op_x opcode55"
  shows "\<exists>s1 s2. OPFX55_execute s opcode55 = Inr s1 \<and> OPFX65_execute s1 opcode65 = Inr s2
     \<and> py_slice (memory s1) (i_register s) (i_register s + op_x opcode55 + 1)
         = take (nat (op_x opcode55) + 1) (v_registers s)
     \<and> v_registers s2 = v_registers s
     \<and> (\<forall>k \<le> nat (op_x opcode55). v_registers s2 ! k = v_registers s ! k)"
proof -
  let ?x = "op_x opcode55" and ?i = "i_register s"
  have x: "0 \<le> ?x" "?x < 16"
    using op_x_range [of opcode55] by simp_all
  let ?vs = "take (nat ?x + 1) (v_registers s)"
  have regs: "py_slice (v_registers s) 0 (?x + 1) = ?vs"
    using x by (simp add: py_slice_nonneg nat_add_distrib)
  have lvs: "length ?vs = nat ?x + 1"
    using x len by simp
  let ?m1 = "take (nat ?i) (memory s) @ ?vs @ drop (nat (?i + ?x + 1)) (memory s)"
  have store: "py_slice_assign (memory s) ?i (?i + ?x + 1) ?vs = ?m1"
    using x i0 by (simp add: py_slice_assign_nonneg)
  have lt: "length (take (nat ?i) (memory s)) = nat ?i"
    using i0 i1 by simp
  have "py_slice ?m1 ?i (?i + ?x + 1) = take (nat (?i + ?x + 1) - nat ?i) (drop (nat ?i) ?m1)"
    using x i0 by (simp add: py_slice_nonneg)
  also have "drop (nat ?i) ?m1 = ?vs @ drop (nat (?i + ?x + 1)) (memory s)"
    using lt by (simp del: length_take)
  also have "nat (?i + ?x + 1) - nat ?i = nat ?x + 1"
    using x i0 by linarith
  also have "take (nat ?x + 1) (?vs @ drop (nat (?i + ?x + 1)) (memory s)) = ?vs"
    using lvs by simp
  finally have load: "py_slice ?m1 ?i (?i + ?x + 1) = ?vs" .
  have refill: "py_slice_assign (v_registers s) 0 (?x + 1) ?vs = v_registers s"
    using x by (simp add: py_slice_assign_nonneg nat_add_distrib)
  show ?thesis
    using regs store load refill by (simp add: OPFX55_execute_def OPFX65_execute_def Let_def same)
qed

text \<open>With I = 4095 the store of V0..V3 runs past the last byte and the registers still come back.\<close>

theorem store_then_load_round_trip_witness:
  "\<exists>s1 s2. OPFX55_execute block_edge_state 0xF355 = Inr s1 \<and> OPFX65_execute s1 0xF365 = Inr s2
     \<and> length (memory s1) = 4099
     \<and> v_registers s2 = [1, 2, 3, 4, 5, 6, 7, 8, 9, 10, 11, 12, 13, 14, 15, 16]"
proof -
  have len: "length (v_registers block_edge_state) = 16"
    and i0: "0 \<le> i_register block_edge_state"
    and i1: "i_register block_edge_state \<le> int (length (memory block_edge_state))"
    by (simp_all add: block_edge_state_def memory_reset_cpu length_font_sprites)
  have same: "op_x 0xF365 = op_x 0xF355"
    by (simp add: op_x_def)
  obtain s1 s2 where r: "OPFX55_execute block_edge_state 0xF355 = Inr s1"
      "OPFX65_execute s1 0xF365 = Inr s2" "v_registers s2 = v_registers block_edge_state"
    using store_then_load_round_trip [OF len i0 i1 same] by blast
  have "length (memory s1) = 4099"
    using r(1) by (auto simp add: OPFX55_execute_def Let_def op_x_def drop_bit_eq_div
        block_edge_state_def memory_reset_cpu length_font_sprites py_slice_def py_slice_assign_def py_clip_def)
  then show ?thesis
    using r by (simp add: block_edge_state_def)
qed

section \<open>Sprite drawing\<close>

lemma get_pixel_ok:
  assumes "screen_ok (screen s)" "0 \<le> x" "x < 64" "0 \<le> y" "y < 32"
  shows "get_pixel s x y = Inr (screen s ! nat y ! nat x)"
proof -
  have "nat y < length (screen s)" using assms by (simp add: screen_ok_def)
  then have "length (screen s ! nat y) = 64" using assms(1) by (simp add: screen_ok_def)
  then show ?thesis using assms by (simp add: get_pixel_def py_get_in_range screen_ok_def)
qed

lemma set_pixel_ok:
  assumes "screen_ok (screen s)" "0 \<le> x" "x < 64" "0 \<le> y" "y < 32"
  shows "set_pixel s x y v = Inr (s\<lparr>screen := (screen s)[nat y := (screen s ! nat y)[nat x := v]]\<rparr>)"
proof -
  have "nat y < length (screen s)" using assms by (simp add: screen_ok_def)
  then have "length (screen s ! nat y) = 64" using assms(1) by (simp add: screen_ok_def)
  then show ?thesis using assms by (simp add: set_pixel_def py_get_in_range py_set_in_range screen_ok_def)
qed

lemma screen_ok_update:
  "screen_ok sc \<Longrightarrow> length row = 64 \<Longrightarrow> screen_ok (sc[r := row])"
  by (auto simp add: screen_ok_def dest!: set_update_subset_insert [THEN subsetD])


lemma wrap_iff:
  fixes c k v m :: int
  assumes "0 \<le> c" "c < m" "0 \<le> k" "k < m"
  shows "c = (v + k) mod m \<longleftrightarrow> (c - v) mod m = k"
proof
  assume "c = (v + k) mod m"
  then have "(c - v) mod m = ((v + k) mod m - v) mod m"
    by simp
  also have "\<dots> = (v + k - v) mod m"
    by (simp only: mod_diff_left_eq)
  finally show "(c - v) mod m = k"
    using assms by simp
next
  assume "(c - v) mod m = k"
  then have "(v + k) mod m = (v + (c - v) mod m) mod m"
    by simp
  also have "\<dots> = (v + (c - v)) mod m"
    by (simp only: mod_add_right_eq)
  finally show "c = (v + k) mod m"
    using assms by simp
qed

lemma nat_eq_int_iff: "0 \<le> z \<Longrightarrow> c = nat z \<longleftrightarrow> int c = z"
  by auto

lemma col_iff:
  assumes "c < 64" "k < 64"
  shows "c = nat ((vx + int k) mod 64) \<longleftrightarrow> nat ((int c - vx) mod 64) = k"
proof -
  have "c = nat ((vx + int k) mod 64) \<longleftrightarrow> int c = (vx + int k) mod 64"
    by (rule nat_eq_int_iff) simp
  also have "\<dots> \<longleftrightarrow> (int c - vx) mod 64 = int k"
    using assms by (intro wrap_iff) simp_all
  also have "\<dots> \<longleftrightarrow> nat ((int c - vx) mod 64) = k"
    using nat_eq_int_iff [of "(int c - vx) mod 64" k] by auto
  finally show ?thesis .
qed

lemma row_iff:
  assumes "r < 32" "j < 32"
  shows "r = nat ((vy + int j) mod 32) \<longleftrightarrow> nat ((int r - vy) mod 32) = j"
proof -
  have "r = nat ((vy + int j) mod 32) \<longleftrightarrow> int r = (vy + int j) mod 32"
    by (rule nat_eq_int_iff) simp
  also have "\<dots> \<longleftrightarrow> (int r - vy) mod 32 = int j"
    using assms by (intro wrap_iff) simp_all
  also have "\<dots> \<longleftrightarrow> nat ((int r - vy) mod 32) = j"
    using nat_eq_int_iff [of "(int r - vy) mod 32" j] by auto
  finally show ?thesis .
qed

lemma screen_nth_update:
  assumes "screen_ok sc" "r0 < 32" "c0 < 64" "r < 32" "c < 64"
  shows "sc[r0 := (sc ! r0)[c0 := v]] ! r ! c = (if r = r0 \<and> c = c0 then v else sc ! r ! c)"
proof -
  have "length sc = 32" "length (sc ! r0) = 64"
    using assms by (simp_all add: screen_ok_def)
  then show ?thesis
    using assms by (simp add: nth_list_update)
qed

lemma draw_row_step:
  assumes ok: "screen_ok (screen s)" and len: "length (v_registers s) = 16"
  shows "draw_row (xc # xcs) yc sprite_row (int k) s =
     draw_row xcs (yc mod 32) sprite_row (int (Suc k))
       (s\<lparr>v_registers :=
            (if screen s ! nat (yc mod 32) ! nat (xc mod 64) = 1 \<and> sprite_bit sprite_row k = 1
             then (v_registers s)[15 := 1] else v_registers s),
          screen := (screen s)[nat (yc mod 32) :=
            (screen s ! nat (yc mod 32))[nat (xc mod 64) :=
               screen s ! nat (yc mod 32) ! nat (xc mod 64) XOR sprite_bit sprite_row k]]\<rparr>)"
proof -
  have b: "0 \<le> xc mod 64" "xc mod 64 < 64" "0 \<le> yc mod 32" "yc mod 32 < 32"
    by simp_all
  have n: "nat (7 - int k) = 7 - k"
    by simp
  have okv: "screen_ok (screen (s\<lparr>v_registers := v\<rparr>))" for v
    using ok by simp
  show ?thesis
    using len
    by (simp add: SCREEN_WIDTH_def SCREEN_HEIGHT_def get_pixel_ok [OF ok b] Let_def
        set_pixel_ok [OF ok b] set_pixel_ok [OF okv b] v_set_ok sprite_bit_def n add.commute
        del: One_nat_def)
qed


lemma draw_row_spec:
  assumes "screen_ok (screen s)" and "length (v_registers s) = 16" and "k0 + m \<le> 8"
  shows "\<exists>s'. draw_row (map (\<lambda>k. vx + int k) [k0..<k0 + m]) yc sprite_row (int k0) s = Inr s'
      \<and> screen_ok (screen s') \<and> length (v_registers s') = 16
      \<and> memory s' = memory s
      \<and> (v_registers s' = v_registers s \<or> v_registers s' = (v_registers s)[15 := 1])
      \<and> (\<forall>r<32. \<forall>c<64. screen s' ! r ! c =
           (if r = nat (yc mod 32) \<and> k0 \<le> nat ((int c - vx) mod 64) \<and> nat ((int c - vx) mod 64) < k0 + m
            then screen s ! r ! c XOR sprite_bit sprite_row (nat ((int c - vx) mod 64))
            else screen s ! r ! c))"
  using assms
proof (induction m arbitrary: k0 s yc)
  case 0
  then show ?case by simp
next
  case (Suc m)
  let ?r0 = "nat (yc mod 32)" and ?c0 = "nat ((vx + int k0) mod 64)"
  let ?cur = "screen s ! ?r0 ! ?c0"
  let ?s2 = "s\<lparr>v_registers :=
            (if ?cur = 1 \<and> sprite_bit sprite_row k0 = 1 then (v_registers s)[15 := 1] else v_registers s),
          screen := (screen s)[?r0 := (screen s ! ?r0)[?c0 := ?cur XOR sprite_bit sprite_row k0]]\<rparr>"
  have r0: "?r0 < 32" and c0: "?c0 < 64"
    by simp_all
  have k0: "k0 < 64"
    using Suc.prems(3) by simp
  have lrow: "length (screen s ! ?r0) = 64"
    using Suc.prems(1) r0 by (simp add: screen_ok_def)
  have ok2: "screen_ok (screen ?s2)"
    using Suc.prems(1) lrow by (simp add: screen_ok_update)
  have len2: "length (v_registers ?s2) = 16"
    using Suc.prems(2) by simp
  have lst: "map (\<lambda>k. vx + int k) [k0..<k0 + Suc m] =
      (vx + int k0) # map (\<lambda>k. vx + int k) [Suc k0..<Suc k0 + m]"
    by (simp add: upt_conv_Cons)
  have step: "draw_row (map (\<lambda>k. vx + int k) [k0..<k0 + Suc m]) yc sprite_row (int k0) s =
      draw_row (map (\<lambda>k. vx + int k) [Suc k0..<Suc k0 + m]) (yc mod 32) sprite_row (int (Suc k0)) ?s2"
    unfolding lst by (rule draw_row_step [OF Suc.prems(1) Suc.prems(2)])
  from Suc.IH [OF ok2 len2, of "Suc k0" "yc mod 32"] Suc.prems(3)
  obtain s' where s': "draw_row (map (\<lambda>k. vx + int k) [Suc k0..<Suc k0 + m]) (yc mod 32) sprite_row (int (Suc k0)) ?s2 = Inr s'"
    "screen_ok (screen s')" "length (v_registers s') = 16" "memory s' = memory ?s2"
    "v_registers s' = v_registers ?s2 \<or> v_registers s' = (v_registers ?s2)[15 := 1]"
    and pix: "\<forall>r<32. \<forall>c<64. screen s' ! r ! c =
           (if r = nat (yc mod 32 mod 32) \<and> Suc k0 \<le> nat ((int c - vx) mod 64) \<and> nat ((int c - vx) mod 64) < Suc k0 + m
            then screen ?s2 ! r ! c XOR sprite_bit sprite_row (nat ((int c - vx) mod 64))
            else screen ?s2 ! r ! c)"
    by auto
  have regs: "v_registers s' = v_registers s \<or> v_registers s' = (v_registers s)[15 := 1]"
    using s'(5) by (auto split: if_splits)
  have pix2: "screen s' ! r ! c =
           (if r = ?r0 \<and> k0 \<le> nat ((int c - vx) mod 64) \<and> nat ((int c - vx) mod 64) < k0 + Suc m
            then screen s ! r ! c XOR sprite_bit sprite_row (nat ((int c - vx) mod 64))
            else screen s ! r ! c)" if r: "r < 32" and c: "c < 64" for r c
  proof -
    define kc where "kc = nat ((int c - vx) mod 64)"
    define p0 where "p0 = screen s ! r ! c"
    define p2 where "p2 = screen ?s2 ! r ! c"
    define p' where "p' = screen s' ! r ! c"
    have ci: "c = ?c0 \<longleftrightarrow> kc = k0"
      unfolding kc_def by (rule col_iff [OF c k0])
    have raw: "p2 = (if r = ?r0 \<and> c = ?c0 then ?cur XOR sprite_bit sprite_row k0 else p0)"
      unfolding p2_def p0_def using screen_nth_update [OF Suc.prems(1) r0 c0 r c] by simp
    have upd: "p2 = (if r = ?r0 \<and> kc = k0 then p0 XOR sprite_bit sprite_row kc else p0)"
    proof (cases "r = ?r0 \<and> c = ?c0")
      case True
      then have "kc = k0" and "p0 = ?cur"
        using ci by (simp_all add: p0_def)
      then show ?thesis
        using raw True by simp
    next
      case False
      then have "\<not> (r = ?r0 \<and> kc = k0)"
        using ci by simp
      then show ?thesis
        using raw False by auto
    qed
    have "p' = (if r = nat (yc mod 32 mod 32) \<and> Suc k0 \<le> kc \<and> kc < Suc k0 + m
            then p2 XOR sprite_bit sprite_row kc else p2)"
      unfolding p'_def p2_def kc_def by (rule pix [rule_format, OF r c])
    then have new: "p' = (if r = ?r0 \<and> Suc k0 \<le> kc \<and> kc < Suc k0 + m
            then p2 XOR sprite_bit sprite_row kc else p2)"
      by simp
    have "p' = (if r = ?r0 \<and> k0 \<le> kc \<and> kc < k0 + Suc m
            then p0 XOR sprite_bit sprite_row kc else p0)"
    proof (cases "r = ?r0 \<and> kc = k0")
      case True
      then show ?thesis
        unfolding new upd by simp
    next
      case False
      then have "r = ?r0 \<and> k0 \<le> kc \<and> kc < k0 + Suc m \<longleftrightarrow> r = ?r0 \<and> Suc k0 \<le> kc \<and> kc < Suc k0 + m"
        by auto
      then show ?thesis
        unfolding new upd using False by auto
    qed
    then show ?thesis
      unfolding p'_def p0_def kc_def .
  qed
  show ?case
    unfolding step using s'(1-4) regs pix2 by simp
qed

lemma upto_as_map: "[a..a + int n - 1] = map (\<lambda>k. a + int k) [0..<n]"
proof (induction n)
  case 0
  then show ?case by simp
next
  case (Suc n)
  have "[a..a + int (Suc n) - 1] = [a..a + int n - 1] @ [a + int n]"
    using upto_rec2 [of a "a + int n"] by simp
  then show ?case
    using Suc by simp
qed

lemma draw_rows_step:
  assumes "0 \<le> i + int j" "i + int j < int (length (memory s))"
  shows "draw_rows (yc # ycs) vx i (int j) s =
     ebind (draw_row (map (\<lambda>k. vx + int k) [0..<0 + 8]) yc (memory s ! nat (i + int j)) (int 0) s)
       (draw_rows ycs vx i (int (Suc j)))"
proof -
  have "[vx..vx + 8 - 1] = map (\<lambda>k. vx + int k) [0..<0 + 8]"
    using upto_as_map [of vx 8] by simp
  then show ?thesis
    using assms by (simp add: py_get_in_range add.commute del: upt_Suc)
qed


lemma draw_rows_spec:
  assumes "screen_ok (screen s)" and "length (v_registers s) = 16" and "j0 + m \<le> 32"
    and "0 \<le> i" and "i + int (j0 + m) \<le> int (length (memory s))"
  shows "\<exists>s'. draw_rows (map (\<lambda>j. vy + int j) [j0..<j0 + m]) vx i (int j0) s = Inr s'
      \<and> screen_ok (screen s') \<and> length (v_registers s') = 16
      \<and> memory s' = memory s
      \<and> (v_registers s' = v_registers s \<or> v_registers s' = (v_registers s)[15 := 1])
      \<and> (\<forall>r<32. \<forall>c<64. screen s' ! r ! c =
           (if j0 \<le> nat ((int r - vy) mod 32) \<and> nat ((int r - vy) mod 32) < j0 + m
               \<and> nat ((int c - vx) mod 64) < 8
            then screen s ! r ! c XOR
              sprite_bit (memory s ! nat (i + int (nat ((int r - vy) mod 32)))) (nat ((int c - vx) mod 64))
            else screen s ! r ! c))"
  using assms
proof (induction m arbitrary: j0 s)
  case 0
  then show ?case by simp
next
  case (Suc m)
  let ?row = "memory s ! nat (i + int j0)"
  have j0: "j0 < 32"
    using Suc.prems(3) by simp
  have rd: "0 \<le> i + int j0" "i + int j0 < int (length (memory s))"
    using Suc.prems(4,5) by simp_all
  have lst: "map (\<lambda>j. vy + int j) [j0..<j0 + Suc m] =
      (vy + int j0) # map (\<lambda>j. vy + int j) [Suc j0..<Suc j0 + m]"
    by (simp add: upt_conv_Cons)
  have step: "draw_rows (map (\<lambda>j. vy + int j) [j0..<j0 + Suc m]) vx i (int j0) s =
     ebind (draw_row (map (\<lambda>k. vx + int k) [0..<0 + 8]) (vy + int j0) ?row (int 0) s)
       (draw_rows (map (\<lambda>j. vy + int j) [Suc j0..<Suc j0 + m]) vx i (int (Suc j0)))"
    unfolding lst by (rule draw_rows_step [OF rd])
  from draw_row_spec [OF Suc.prems(1) Suc.prems(2), of 0 8 vx "vy + int j0" ?row]
  obtain s1 where s1: "draw_row (map (\<lambda>k. vx + int k) [0..<0 + 8]) (vy + int j0) ?row (int 0) s = Inr s1"
    "screen_ok (screen s1)" "length (v_registers s1) = 16" "memory s1 = memory s"
    "v_registers s1 = v_registers s \<or> v_registers s1 = (v_registers s)[15 := 1]"
    and pix1: "\<forall>r<32. \<forall>c<64. screen s1 ! r ! c =
           (if r = nat ((vy + int j0) mod 32) \<and> 0 \<le> nat ((int c - vx) mod 64) \<and> nat ((int c - vx) mod 64) < 0 + 8
            then screen s ! r ! c XOR sprite_bit ?row (nat ((int c - vx) mod 64))
            else screen s ! r ! c)"
    by auto
  have mem1: "i + int (Suc j0 + m) \<le> int (length (memory s1))"
    using Suc.prems(5) s1(4) by simp
  have b1: "Suc j0 + m \<le> 32"
    using Suc.prems(3) by simp
  from Suc.IH [OF s1(2) s1(3) b1 Suc.prems(4) mem1]
  obtain s' where s': "draw_rows (map (\<lambda>j. vy + int j) [Suc j0..<Suc j0 + m]) vx i (int (Suc j0)) s1 = Inr s'"
    "screen_ok (screen s')" "length (v_registers s') = 16" "memory s' = memory s1"
    "v_registers s' = v_registers s1 \<or> v_registers s' = (v_registers s1)[15 := 1]"
    and pix: "\<forall>r<32. \<forall>c<64. screen s' ! r ! c =
           (if Suc j0 \<le> nat ((int r - vy) mod 32) \<and> nat ((int r - vy) mod 32) < Suc j0 + m
               \<and> nat ((int c - vx) mod 64) < 8
            then screen s1 ! r ! c XOR
              sprite_bit (memory s1 ! nat (i + int (nat ((int r - vy) mod 32)))) (nat ((int c - vx) mod 64))
            else screen s1 ! r ! c)"
    by auto
  have regs: "v_registers s' = v_registers s \<or> v_registers s' = (v_registers s)[15 := 1]"
    using s'(5) s1(5) by auto
  have pix2: "screen s' ! r ! c =
           (if j0 \<le> nat ((int r - vy) mod 32) \<and> nat ((int r - vy) mod 32) < j0 + Suc m
               \<and> nat ((int c - vx) mod 64) < 8
            then screen s ! r ! c XOR
              sprite_bit (memory s ! nat (i + int (nat ((int r - vy) mod 32)))) (nat ((int c - vx) mod 64))
            else screen s ! r ! c)" if r: "r < 32" and c: "c < 64" for r c
  proof -
    define jr where "jr = nat ((int r - vy) mod 32)"
    define kc where "kc = nat ((int c - vx) mod 64)"
    define p0 where "p0 = screen s ! r ! c"
    define p1 where "p1 = screen s1 ! r ! c"
    define p' where "p' = screen s' ! r ! c"
    have ri: "r = nat ((vy + int j0) mod 32) \<longleftrightarrow> jr = j0"
      unfolding jr_def by (rule row_iff [OF r j0])
    have "p1 = (if r = nat ((vy + int j0) mod 32) \<and> 0 \<le> kc \<and> kc < 0 + 8
            then p0 XOR sprite_bit ?row kc else p0)"
      unfolding p1_def p0_def kc_def by (rule pix1 [rule_format, OF r c])
    then have first: "p1 = (if jr = j0 \<and> kc < 8 then p0 XOR sprite_bit ?row kc else p0)"
      unfolding ri by simp
    have "p' = (if Suc j0 \<le> jr \<and> jr < Suc j0 + m \<and> kc < 8
            then p1 XOR sprite_bit (memory s1 ! nat (i + int jr)) kc else p1)"
      unfolding p'_def p1_def kc_def jr_def by (rule pix [rule_format, OF r c])
    then have rest: "p' = (if Suc j0 \<le> jr \<and> jr < Suc j0 + m \<and> kc < 8
            then p1 XOR sprite_bit (memory s ! nat (i + int jr)) kc else p1)"
      unfolding s1(4) .
    have "p' = (if j0 \<le> jr \<and> jr < j0 + Suc m \<and> kc < 8
            then p0 XOR sprite_bit (memory s ! nat (i + int jr)) kc else p0)"
    proof (cases "jr = j0")
      case True
      then show ?thesis
        unfolding rest first by simp
    next
      case False
      then have "j0 \<le> jr \<and> jr < j0 + Suc m \<and> kc < 8 \<longleftrightarrow> Suc j0 \<le> jr \<and> jr < Suc j0 + m \<and> kc < 8"
        by auto
      then show ?thesis
        unfolding rest first using False by auto
    qed
    then show ?thesis
      unfolding p'_def p0_def kc_def jr_def .
  qed
  show ?case
    unfolding step s1(1) ebind_Inr using s'(1-3) s'(4) s1(4) regs pix2 by simp
qed


lemma OPDXYN_execute_spec:
  assumes ok: "screen_ok (screen s)" and len: "length (v_registers s) = 16"
    and i0: "0 \<le> i_register s" and i1: "i_register s + op_n opcode \<le> int (length (memory s))"
  shows "\<exists>s'. OPDXYN_execute s opcode = Inr s'
      \<and> screen_ok (screen s') \<and> length (v_registers s') = 16 \<and> memory s' = memory s
      \<and> (v_registers s' = (v_registers s)[15 := 0] \<or> v_registers s' = (v_registers s)[15 := 1])
      \<and> (\<forall>r<32. \<forall>c<64. screen s' ! r ! c =
           (if nat ((int r - v_registers s ! nat (op_y opcode)) mod 32) < nat (op_n opcode)
               \<and> nat ((int c - v_registers s ! nat (op_x opcode)) mod 64) < 8
            then screen s ! r ! c XOR
              sprite_bit (memory s ! nat (i_register s + int (nat ((int r - v_registers s ! nat (op_y opcode)) mod 32))))
                (nat ((int c - v_registers s ! nat (op_x opcode)) mod 64))
            else screen s ! r ! c))"
proof -
  let ?vx = "v_registers s ! nat (op_x opcode)" and ?vy = "v_registers s ! nat (op_y opcode)"
  let ?n = "nat (op_n opcode)"
  let ?s1 = "s\<lparr>v_registers := (v_registers s)[15 := 0]\<rparr>"
  have x: "0 \<le> op_x opcode" "op_x opcode < 16" and y: "0 \<le> op_y opcode" "op_y opcode < 16"
    and n: "0 \<le> op_n opcode" "op_n opcode < 16"
    using op_x_range [of opcode] op_y_range [of opcode] op_n_range [of opcode] by simp_all
  have rows: "[?vy..?vy + op_n opcode - 1] = map (\<lambda>j. ?vy + int j) [0..<0 + ?n]"
    using upto_as_map [of ?vy ?n] n by simp
  have exec: "OPDXYN_execute s opcode = draw_rows (map (\<lambda>j. ?vy + int j) [0..<0 + ?n]) ?vx (i_register s) (int 0) ?s1"
    using len x y by (simp add: OPDXYN_execute_def v_get_ok v_set_ok Let_def rows del: upt_Suc)
  have ok1: "screen_ok (screen ?s1)" and len1: "length (v_registers ?s1) = 16"
    using ok len by simp_all
  have b: "0 + ?n \<le> 32"
    using n by simp
  have m: "i_register s + int (0 + ?n) \<le> int (length (memory ?s1))"
    using i1 n by simp
  from draw_rows_spec [OF ok1 len1 b i0 m, of ?vy ?vx]
  show ?thesis
    unfolding exec by auto
qed

lemma flag_is_bit_after_draw:
  assumes "screen_ok (screen s)" and "length (v_registers s) = 16"
    and "0 \<le> i_register s" and "i_register s + op_n opcode \<le> int (length (memory s))"
  shows "\<exists>s'. OPDXYN_execute s opcode = Inr s' \<and> (v_registers s' ! 15 = 0 \<or> v_registers s' ! 15 = 1)"
  using OPDXYN_execute_spec [OF assms] assms(2) by auto

text \<open>
  C7. \<open>OPDXYN\<close> on a screen of 32 rows of 64 pixels, 16 registers and N sprite rows
  readable at I, for all values of VX and VY: the handler returns normally; for every sprite
  row \<open>j < N\<close> and every sprite column \<open>k < 8\<close> the pixel in row \<open>(VY + j) mod 32\<close> and
  column \<open>(VX + k) mod 64\<close> becomes its old value XOR bit \<open>7 - k\<close> of \<open>memory[I + j]\<close>;
  every other pixel keeps its value. Nothing is clipped: the columns run around the right
  edge and the rows around the bottom edge.
\<close>

theorem OPDXYN_wraps_around:
  assumes ok: "screen_ok (screen s)" and len: "length (v_registers s) = 16"
    and i0: "0 \<le> i_register s" and i1: "i_register s + op_n opcode \<le> int (length (memory s))"
  shows "\<exists>s'. OPDXYN_execute s opcode = Inr s'
      \<and> (\<forall>j < nat (op_n opcode). \<forall>k < 8.
            screen s' ! nat ((v_registers s ! nat (op_y opcode) + int j) mod 32)
                      ! nat ((v_registers s ! nat (op_x opcode) + int k) mod 64)
            = screen s ! nat ((v_registers s ! nat (op_y opcode) + int j) mod 32)
                       ! nat ((v_registers s ! nat (op_x opcode) + int k) mod 64)
              XOR sprite_bit (memory s ! nat (i_register s + int j)) k)
      \<and> (\<forall>r<32. \<forall>c<64.
            (\<forall>j < nat (op_n opcode). \<forall>k < 8.
               \<not> (r = nat ((v_registers s ! nat (op_y opcode) + int j) mod 32)
                  \<and> c = nat ((v_registers s ! nat (op_x opcode) + int k) mod 64)))
            \<longrightarrow> screen s' ! r ! c = screen s ! r ! c)"
proof -
  let ?vx = "v_registers s ! nat (op_x opcode)" and ?vy = "v_registers s ! nat (op_y opcode)"
  let ?n = "nat (op_n opcode)"
  have n: "?n < 16"
    using op_n_range [of opcode] by linarith
  from OPDXYN_execute_spec [OF assms]
  obtain s' where ex: "OPDXYN_execute s opcode = Inr s'"
    and pix: "\<forall>r<32. \<forall>c<64. screen s' ! r ! c =
           (if nat ((int r - ?vy) mod 32) < ?n \<and> nat ((int c - ?vx) mod 64) < 8
            then screen s ! r ! c XOR
              sprite_bit (memory s ! nat (i_register s + int (nat ((int r - ?vy) mod 32))))
                (nat ((int c - ?vx) mod 64))
            else screen s ! r ! c)"
    by blast
  have drawn: "screen s' ! nat ((?vy + int j) mod 32) ! nat ((?vx + int k) mod 64)
      = screen s ! nat ((?vy + int j) mod 32) ! nat ((?vx + int k) mod 64)
        XOR sprite_bit (memory s ! nat (i_register s + int j)) k" if j: "j < ?n" and k: "k < 8" for j k
  proof -
    let ?r = "nat ((?vy + int j) mod 32)" and ?c = "nat ((?vx + int k) mod 64)"
    have r: "?r < 32" and c: "?c < 64"
      by simp_all
    have j32: "j < 32" and k64: "k < 64"
      using j n k by simp_all
    have jr: "nat ((int ?r - ?vy) mod 32) = j"
      using row_iff [OF r j32, of ?vy] by simp
    have kc: "nat ((int ?c - ?vx) mod 64) = k"
      using col_iff [OF c k64, of ?vx] by simp
    show ?thesis
      using pix [rule_format, OF r c] j k unfolding jr kc by simp
  qed
  have rest: "screen s' ! r ! c = screen s ! r ! c"
    if r: "r < 32" and c: "c < 64"
      and out: "\<forall>j < ?n. \<forall>k < 8. \<not> (r = nat ((?vy + int j) mod 32) \<and> c = nat ((?vx + int k) mod 64))"
    for r c
  proof -
    let ?j = "nat ((int r - ?vy) mod 32)" and ?k = "nat ((int c - ?vx) mod 64)"
    have j32: "?j < 32" and k64: "?k < 64"
      by simp_all
    have "r = nat ((?vy + int ?j) mod 32)" and "c = nat ((?vx + int ?k) mod 64)"
      using row_iff [OF r j32, of ?vy] col_iff [OF c k64, of ?vx] by simp_all
    then have neg: "\<not> (?j < ?n \<and> ?k < 8)"
      using out by blast
    show ?thesis
      by (subst pix [rule_format, OF r c]) (rule if_not_P [OF neg])
  qed
  show ?thesis
    using ex drawn rest by blast
qed

lemma upto_0_7: "[0..7] = [0, 1, 2, 3, 4, 5, 6, 7 :: int]"
  by (simp add: upto_rec1)

lemma erase_row:
  "(replicate 64 0)[0 := 1, Suc 0 := 1, 2 := 1, 3 := 1, 4 := 1, 5 := 1, 6 := 1, 7 := 1,
      0 := 0, Suc 0 := 0, 2 := 0, 3 := 0, 4 := 0, 5 := 0, 6 := 0, 7 := 0] = replicate 64 (0 :: int)"
  by (simp add: list_eq_iff_nth_eq nth_list_update)

lemma blank_row: "(replicate 32 r)[0 := r] = replicate 32 r"
  by (simp add: list_eq_iff_nth_eq nth_list_update)

lemma first_draw:
  assumes scr: "screen s = blank_screen" and len: "length (v_registers s) = 16"
    and vx: "v_registers s ! nat (op_x opcode) = 0" and vy: "v_registers s ! nat (op_y opcode) = 0"
    and n: "op_n opcode = 1"
    and i0: "0 \<le> i_register s" and i1: "i_register s < int (length (memory s))"
    and row: "memory s ! nat (i_register s) = 0xFF"
  shows "OPDXYN_execute s opcode =
     Inr (s\<lparr>v_registers := (v_registers s)[15 := 0], screen := first_draw_screen\<rparr>)"
proof -
  have x: "0 \<le> op_x opcode" "op_x opcode < 16" and y: "0 \<le> op_y opcode" "op_y opcode < 16"
    using op_x_range [of opcode] op_y_range [of opcode] by simp_all
  have "OPDXYN_execute s opcode =
      ebind (draw_row [0..7] 0 255 0 (s\<lparr>v_registers := (v_registers s)[15 := 0]\<rparr>))
        (draw_rows [] 0 (i_register s) 1)"
    using len x y vx vy i0 i1
    by (simp add: OPDXYN_execute_def v_get_ok v_set_ok Let_def n py_get_in_range row)
  also have "\<dots> = Inr (s\<lparr>v_registers := (v_registers s)[15 := 0], screen := first_draw_screen\<rparr>)"
    using len
    by (simp add: scr first_draw_screen_def blank_screen_def SCREEN_WIDTH_def SCREEN_HEIGHT_def
        get_pixel_def set_pixel_def py_get_in_range py_set_in_range v_set_ok Let_def upto_0_7)
  finally show ?thesis .
qed

lemma second_draw:
  assumes scr: "screen s = first_draw_screen" and len: "length (v_registers s) = 16"
    and vx: "v_registers s ! nat (op_x opcode) = 0" and vy: "v_registers s ! nat (op_y opcode) = 0"
    and n: "op_n opcode = 1"
    and i0: "0 \<le> i_register s" and i1: "i_register s < int (length (memory s))"
    and row: "memory s ! nat (i_register s) = 0xFF"
  shows "OPDXYN_execute s opcode =
     Inr (s\<lparr>v_registers := (v_registers s)[15 := 1], screen := blank_screen\<rparr>)"
proof -
  have x: "0 \<le> op_x opcode" "op_x opcode < 16" and y: "0 \<le> op_y opcode" "op_y opcode < 16"
    using op_x_range [of opcode] op_y_range [of opcode] by simp_all
  have "OPDXYN_execute s opcode =
      ebind (draw_row [0..7] 0 255 0 (s\<lparr>v_registers := (v_registers s)[15 := 0]\<rparr>))
        (draw_rows [] 0 (i_register s) 1)"
    using len x y vx vy i0 i1
    by (simp add: OPDXYN_execute_def v_get_ok v_set_ok Let_def n py_get_in_range row)
  also have "\<dots> = Inr (s\<lparr>v_registers := (v_registers s)[15 := 1], screen := blank_screen\<rparr>)"
    using len
    by (simp add: scr first_draw_screen_def blank_screen_def SCREEN_WIDTH_def SCREEN_HEIGHT_def
        get_pixel_def set_pixel_def py_get_in_range py_set_in_range v_set_ok Let_def upto_0_7
        erase_row blank_row)
  finally show ?thesis .
qed


lemma first_draw_screen_nth:
  "r < 32 \<Longrightarrow> c < 64 \<Longrightarrow> first_draw_screen ! r ! c = (if r = 0 \<and> c < 8 then 1 else 0)"
  by (auto simp add: first_draw_screen_def blank_screen_def SCREEN_WIDTH_def SCREEN_HEIGHT_def
      nth_list_update)

text \<open>
  C6. From a cleared framebuffer, with VX = VY = 0, N = 1 and the byte 0xFF at I: the first
  draw returns normally and leaves exactly the pixels of row 0, columns 0 to 7, set, with
  VF = 0; the same draw again returns normally, leaves the framebuffer cleared, and VF = 1.
\<close>

theorem draw_sprite_twice:
  assumes scr: "screen s = blank_screen" and len: "length (v_registers s) = 16"
    and vx: "v_registers s ! nat (op_x opcode) = 0" and vy: "v_registers s ! nat (op_y opcode) = 0"
    and n: "op_n opcode = 1"
    and i0: "0 \<le> i_register s" and i1: "i_register s < int (length (memory s))"
    and row: "memory s ! nat (i_register s) = 0xFF"
  shows "\<exists>s1 s2. OPDXYN_execute s opcode = Inr s1
      \<and> (\<forall>r<32. \<forall>c<64. screen s1 ! r ! c = (if r = 0 \<and> c < 8 then 1 else 0))
      \<and> v_registers s1 ! 15 = 0
      \<and> OPDXYN_execute s1 opcode = Inr s2
      \<and> screen s2 = blank_screen
      \<and> (\<forall>r<32. \<forall>c<64. screen s2 ! r ! c = 0)
      \<and> v_registers s2 ! 15 = 1"
proof -
  let ?s1 = "s\<lparr>v_registers := (v_registers s)[15 := 0], screen := first_draw_screen\<rparr>"
  let ?s2 = "?s1\<lparr>v_registers := (v_registers ?s1)[15 := 1], screen := blank_screen\<rparr>"
  have one: "OPDXYN_execute s opcode = Inr ?s1"
    by (rule first_draw [OF assms])
  have vx1: "v_registers ?s1 ! nat (op_x opcode) = 0" and vy1: "v_registers ?s1 ! nat (op_y opcode) = 0"
    using vx vy len by (simp_all add: nth_list_update)
  have two: "OPDXYN_execute ?s1 opcode = Inr ?s2"
    by (rule second_draw [OF _ _ vx1 vy1 n]) (use len i0 i1 row in simp_all)
  have blank: "\<forall>r<32. \<forall>c<64. blank_screen ! r ! c = 0"
    by (simp add: blank_screen_def SCREEN_WIDTH_def SCREEN_HEIGHT_def)
  show ?thesis
    unfolding one
    using two len blank by (simp add: first_draw_screen_nth)
qed

section \<open>Concrete draws\<close>

lemma nibbles_D011: "op_x 0xD011 = 0" "op_y 0xD011 = 1" "op_n 0xD011 = 1"
  by (simp_all add: op_x_def op_y_def op_n_def drop_bit_eq_div)

lemma sprite_state_fields:
  "screen sprite_state = blank_screen" "v_registers sprite_state = replicate 16 0"
  "i_register sprite_state = 768" "length (memory sprite_state) = 4096"
  "memory sprite_state ! 768 = 0xFF"
  by (simp_all add: sprite_state_def reset_cpu_fields v_registers_reset_cpu memory_reset_cpu
      length_font_sprites)

text \<open>After a reset, with 0xFF at 0x300, I = 0x300 and the opcode D011 (V0 = V1 = 0, one row).\<close>

theorem draw_sprite_twice_witness:
  "\<exists>s1 s2. OPDXYN_execute sprite_state 0xD011 = Inr s1
      \<and> screen s1 ! 0 ! 0 = 1 \<and> screen s1 ! 0 ! 7 = 1 \<and> screen s1 ! 0 ! 8 = 0 \<and> screen s1 ! 1 ! 0 = 0
      \<and> v_registers s1 ! 15 = 0
      \<and> OPDXYN_execute s1 0xD011 = Inr s2
      \<and> screen s2 = blank_screen \<and> v_registers s2 ! 15 = 1"
proof -
  from draw_sprite_twice [of sprite_state "0xD011"]
  obtain s1 s2 where r: "OPDXYN_execute sprite_state 0xD011 = Inr s1"
    "\<forall>r<32. \<forall>c<64. screen s1 ! r ! c = (if r = 0 \<and> c < 8 then 1 else 0)"
    "v_registers s1 ! 15 = 0" "OPDXYN_execute s1 0xD011 = Inr s2"
    "screen s2 = blank_screen" "v_registers s2 ! 15 = 1"
    by (auto simp add: nibbles_D011 sprite_state_fields)
  have "screen s1 ! 0 ! 0 = 1" "screen s1 ! 0 ! 7 = 1" "screen s1 ! 0 ! 8 = 0" "screen s1 ! 1 ! 0 = 0"
    using r(2) by simp_all
  then show ?thesis
    using r by blast
qed

lemma wrap_state_fields:
  "screen wrap_state = blank_screen" "v_registers wrap_state = (replicate 16 0)[0 := 60]"
  "i_register wrap_state = 768" "length (memory wrap_state) = 4096"
  "memory wrap_state ! 768 = 0xFF"
  by (simp_all add: wrap_state_def sprite_state_fields)

lemma screen_ok_blank: "screen_ok blank_screen"
  by (simp add: screen_ok_def blank_screen_def SCREEN_WIDTH_def SCREEN_HEIGHT_def)

lemma blank_screen_nth: "r < 32 \<Longrightarrow> c < 64 \<Longrightarrow> blank_screen ! r ! c = 0"
  by (simp add: blank_screen_def SCREEN_WIDTH_def SCREEN_HEIGHT_def)

lemma sprite_bit_FF: "k < 8 \<Longrightarrow> sprite_bit 0xFF k = 1"
proof -
  assume "k < 8"
  then have "k \<in> {0, 1, 2, 3, 4, 5, 6, 7}"
    by auto
  then show ?thesis
    by (auto simp add: sprite_bit_def)
qed

text \<open>With V0 = 60 the eight columns 60 to 67 of the sprite 0xFF land on columns 60 to 63 and 0 to 3.\<close>

theorem OPDXYN_wraps_around_witness:
  "\<exists>s'. OPDXYN_execute wrap_state 0xD011 = Inr s'
      \<and> screen s' ! 0 ! 60 = 1 \<and> screen s' ! 0 ! 61 = 1 \<and> screen s' ! 0 ! 62 = 1 \<and> screen s' ! 0 ! 63 = 1
      \<and> screen s' ! 0 ! 0 = 1 \<and> screen s' ! 0 ! 1 = 1 \<and> screen s' ! 0 ! 2 = 1 \<and> screen s' ! 0 ! 3 = 1"
proof -
  have ok: "screen_ok (screen wrap_state)" and len: "length (v_registers wrap_state) = 16"
    and i0: "0 \<le> i_register wrap_state"
    and i1: "i_register wrap_state + op_n 0xD011 \<le> int (length (memory wrap_state))"
    by (simp_all add: wrap_state_fields screen_ok_blank nibbles_D011)
  from OPDXYN_wraps_around [OF ok len i0 i1]
  obtain s' where ex: "OPDXYN_execute wrap_state 0xD011 = Inr s'"
    and drawn: "\<forall>k<8. screen s' ! 0 ! nat ((60 + int k) mod 64) = sprite_bit 0xFF k"
    by (auto simp add: nibbles_D011 wrap_state_fields blank_screen_nth)
  have "screen s' ! 0 ! nat ((60 + int k) mod 64) = 1" if "k < 8" for k
    using drawn that by (simp add: sprite_bit_FF)
  from this [of 0] this [of 1] this [of 2] this [of 3] this [of 4] this [of 5] this [of 6] this [of 7]
  show ?thesis
    using ex by simp
qed

end
